theory Spec2Isabelle
  imports Main "HOL-Library.Word"
begin

unbundle bit_operations_syntax

section \<open>Bytes, buffers and the constants of encrypt.h\<close>

type_synonym byte = "8 word"

text \<open>
  Modelled from the spec: the header encrypt.h, which declares the method numbers and the
  framing constants, is not among the sources.  The method numbers are the positions in
  the ordered catalog \<open>supported_ciphers\<close> (which has 18 initialisers); the framing
  constants are the ones of the wire format: a 2-byte length, a 10-byte truncated
  HMAC-SHA1, the flag bit 0x10 and the address-type mask 0x0F of the ATYP byte, and the
  64-byte block of the Salsa/ChaCha family.
\<close>

definition TABLE :: nat where "TABLE = 0"
definition RC4 :: nat where "RC4 = 1"
definition RC4_MD5 :: nat where "RC4_MD5 = 2"
definition SALSA20 :: nat where "SALSA20 = 15"
definition CHACHA20 :: nat where "CHACHA20 = 16"
definition CHACHA20IETF :: nat where "CHACHA20IETF = 17"
definition CIPHER_NUM :: nat where "CIPHER_NUM = 18"

definition ONETIMEAUTH_BYTES :: nat where "ONETIMEAUTH_BYTES = 10"
definition CLEN_BYTES :: nat where "CLEN_BYTES = 2"
definition AUTH_BYTES :: nat where "AUTH_BYTES = ONETIMEAUTH_BYTES + CLEN_BYTES"
definition ONETIMEAUTH_FLAG :: byte where "ONETIMEAUTH_FLAG = 0x10"
definition ADDRTYPE_MASK :: byte where "ADDRTYPE_MASK = 0xF"
definition SODIUM_BLOCK_SIZE :: nat where "SODIUM_BLOCK_SIZE = 64"

text \<open>server.c: \<^verbatim>\<open>#define BUF_SIZE 2048\<close>.\<close>

definition BUF_SIZE :: nat where "BUF_SIZE = 2048"

text \<open>
  What the pointer \<^verbatim>\<open>array\<close> of a buffer points to: nothing (\<^verbatim>\<open>NULL\<close>), a block of the
  heap, or a block that has been given back with \<^verbatim>\<open>free\<close> while the pointer was kept.
  \<open>Corrupt\<close> is the state after such a dangling pointer was handed to \<^verbatim>\<open>free\<close> or
  \<^verbatim>\<open>realloc\<close> again, which is undefined behaviour in C.
\<close>

datatype block = Null_ptr | Allocated | Dangling | Corrupt

text \<open>
  \<^verbatim>\<open>buffer_t\<close>: the fields \<^verbatim>\<open>idx\<close>, \<^verbatim>\<open>len\<close>, \<^verbatim>\<open>capacity\<close> and the
  byte array, with the state of its pointer.  \<^verbatim>\<open>size_t\<close> values are natural numbers; the
  one subtraction that could wrap is written out in \<open>size_sub\<close>.
\<close>

record buffer =
  idx :: nat
  len :: nat
  capacity :: nat
  array :: "byte list"
  array_ptr :: block

definition size_sub :: "nat \<Rightarrow> nat \<Rightarrow> nat" where
  "size_sub a b = (if b \<le> a then a - b else a + 2 ^ 64 - b)"

section \<open>The cipher catalog (encrypt.c)\<close>

definition supported_ciphers :: "string list" where
  "supported_ciphers =
    [''table'', ''rc4'', ''rc4-md5'', ''aes-128-cfb'', ''aes-192-cfb'', ''aes-256-cfb'',
     ''bf-cfb'', ''camellia-128-cfb'', ''camellia-192-cfb'', ''camellia-256-cfb'',
     ''cast5-cfb'', ''des-cfb'', ''idea-cfb'', ''rc2-cfb'', ''seed-cfb'', ''salsa20'',
     ''chacha20'', ''chacha20-ietf'']"

definition supported_ciphers_iv_size :: "nat list" where
  "supported_ciphers_iv_size =
    [0, 0, 16, 16, 16, 16, 8, 16, 16, 16, 8, 8, 8, 8, 16, 8, 8, 12]"

definition supported_ciphers_key_size :: "nat list" where
  "supported_ciphers_key_size =
    [0, 16, 16, 16, 24, 32, 16, 16, 24, 32, 16, 8, 16, 16, 16, 32, 32, 32]"

text \<open>
  The cipher-sizes table as the specification prints it (method, key bytes, IV bytes),
  with the row \<open>camellia-128/192/256-cfb | 16/24/32 | 16\<close> written as its three methods.
\<close>

definition spec_cipher_sizes :: "(string \<times> nat \<times> nat) list" where
  "spec_cipher_sizes =
    [(''table'', 0, 0), (''rc4'', 16, 0), (''rc4-md5'', 16, 16),
     (''aes-128-cfb'', 16, 16), (''aes-192-cfb'', 24, 16), (''aes-256-cfb'', 32, 16),
     (''bf-cfb'', 16, 8),
     (''camellia-128-cfb'', 16, 16), (''camellia-192-cfb'', 24, 16),
     (''camellia-256-cfb'', 32, 16),
     (''cast5-cfb'', 16, 8), (''des-cfb'', 8, 8), (''idea-cfb'', 16, 8),
     (''rc2-cfb'', 16, 8), (''seed-cfb'', 16, 16),
     (''salsa20'', 32, 8), (''chacha20'', 32, 8), (''chacha20-ietf'', 32, 12)]"

section \<open>Constant-time comparison (encrypt.c, safe_memcmp)\<close>

text \<open>
  The loop \<^verbatim>\<open>for (i = 0; i < n; i++) ret |= _s1[i] ^ _s2[i];\<close> with \<^verbatim>\<open>int ret\<close>: the
  exclusive or of two \<^verbatim>\<open>unsigned char\<close> is promoted to \<^verbatim>\<open>int\<close>.  The function returns
  \<^verbatim>\<open>!!ret\<close>.  A pointer \<^verbatim>\<open>p + k\<close> into an array is the list \<open>drop k\<close> of it.
\<close>

function safe_memcmp_loop :: "byte list \<Rightarrow> byte list \<Rightarrow> nat \<Rightarrow> nat \<Rightarrow> 32 word \<Rightarrow> 32 word" where
  "safe_memcmp_loop s1 s2 n i ret =
     (if i < n then safe_memcmp_loop s1 s2 n (Suc i) (ret OR ucast ((s1 ! i) XOR (s2 ! i)))
      else ret)"
  by pat_completeness auto
termination
  by (relation "measure (\<lambda>(s1, s2, n, i, ret). n - i)") auto

definition safe_memcmp :: "byte list \<Rightarrow> byte list \<Rightarrow> nat \<Rightarrow> int" where
  "safe_memcmp s1 s2 n = (if safe_memcmp_loop s1 s2 n 0 0 \<noteq> 0 then 1 else 0)"

section \<open>The crypto libraries\<close>

text \<open>
  The cipher, digest and random primitives are not code of this program: they come from
  OpenSSL and libsodium.  They enter the model as one record of functions (the
  \<^verbatim>\<open>USE_CRYPTO_OPENSSL\<close> configuration of encrypt.c); \<open>'c\<close> is the type of an
  \<^verbatim>\<open>EVP_CIPHER_CTX\<close>.

  \<^item> \<open>lib_MD5 d\<close> and \<open>lib_HMAC_SHA1 key msg\<close> are the digests (16 and 20 bytes).
  \<^item> \<open>lib_cipherbyname name\<close> is \<^verbatim>\<open>EVP_get_cipherbyname\<close>: the key and IV length of the
    cipher, or \<open>None\<close> for \<^verbatim>\<open>NULL\<close>; \<open>lib_digestbyname\<close> tells whether the digest exists.
  \<^item> \<open>lib_BytesToKey kt pass\<close> is \<^verbatim>\<open>EVP_BytesToKey\<close> with MD5, no salt and one
    iteration: the key length it returns (0 on failure) and the key bytes.
  \<^item> \<open>lib_CipherInit name keylen enc\<close> stands for the calls of \<^verbatim>\<open>cipher_context_init\<close>
    (\<^verbatim>\<open>EVP_CIPHER_CTX_init\<close>, \<^verbatim>\<open>EVP_CipherInit_ex\<close> with the cipher,
    \<^verbatim>\<open>EVP_CIPHER_CTX_set_key_length\<close>, \<^verbatim>\<open>EVP_CIPHER_CTX_set_padding\<close>); \<open>None\<close> when one
    of them fails.
  \<^item> \<open>lib_CipherSetKeyIV c key iv enc\<close> is \<^verbatim>\<open>EVP_CipherInit_ex(evp, NULL, NULL, key, iv, enc)\<close>;
    \<open>None\<close> when it returns 0.
  \<^item> \<open>lib_CipherUpdate c input\<close> is \<^verbatim>\<open>EVP_CipherUpdate\<close>: its return value, the bytes it
    wrote (their number is what it stores in \<^verbatim>\<open>*outl\<close>) and the context afterwards.
  \<^item> \<open>lib_salsa20 n ic k i\<close>, \<open>lib_chacha20 n ic k i\<close> and \<open>lib_chacha20_ietf n ic k i\<close> are
    byte \<open>i\<close> of the key stream for nonce \<open>n\<close>, initial block counter \<open>ic\<close> and key \<open>k\<close>;
    libsodium's \<^verbatim>\<open>crypto_stream_*_xor_ic\<close> writes the exclusive or of the message with
    that stream and returns 0.
  \<^item> \<open>lib_sodium_init\<close> is the value of \<^verbatim>\<open>sodium_init()\<close>.
  \<^item> \<open>lib_zero_ctx\<close> is a context of all-zero bytes, as \<^verbatim>\<open>memset\<close> leaves it.
\<close>

record cipher_kt =
  key_len :: nat
  iv_len :: nat

record 'c crypto_lib =
  lib_MD5 :: "byte list \<Rightarrow> byte list"
  lib_HMAC_SHA1 :: "byte list \<Rightarrow> byte list \<Rightarrow> byte list"
  lib_cipherbyname :: "string \<Rightarrow> cipher_kt option"
  lib_digestbyname :: "string \<Rightarrow> bool"
  lib_BytesToKey :: "cipher_kt \<Rightarrow> string \<Rightarrow> nat \<times> byte list"
  lib_CipherInit :: "string \<Rightarrow> nat \<Rightarrow> bool \<Rightarrow> 'c option"
  lib_CipherSetKeyIV :: "'c \<Rightarrow> byte list \<Rightarrow> byte list \<Rightarrow> bool \<Rightarrow> 'c option"
  lib_CipherUpdate :: "'c \<Rightarrow> byte list \<Rightarrow> int \<times> byte list \<times> 'c"
  lib_salsa20 :: "byte list \<Rightarrow> 64 word \<Rightarrow> byte list \<Rightarrow> nat \<Rightarrow> byte"
  lib_chacha20 :: "byte list \<Rightarrow> 64 word \<Rightarrow> byte list \<Rightarrow> nat \<Rightarrow> byte"
  lib_chacha20_ietf :: "byte list \<Rightarrow> 32 word \<Rightarrow> byte list \<Rightarrow> nat \<Rightarrow> byte"
  lib_sodium_init :: int
  lib_zero_ctx :: 'c

text \<open>
  A call either returns or ends the process (\<^verbatim>\<open>FATAL\<close> and \<^verbatim>\<open>exit\<close>); the string is the
  message logged on the way out.
\<close>

datatype 'a run = Exits string | Returns 'a

section \<open>The replay cache\<close>

text \<open>
  Modelled from the spec: cache.c (\<^verbatim>\<open>cache_create\<close>, \<^verbatim>\<open>cache_key_exist\<close>,
  \<^verbatim>\<open>cache_insert\<close>) is not among the sources.  The specification describes a bounded set
  keyed by the raw bytes of a received IV, whose eviction order is insertion order (oldest
  evicted first): membership is a test that leaves the cache as it is, insertion appends
  the key and, if the cache is then over capacity, evicts the oldest entry.  The entries
  are listed oldest first.
\<close>

record cache =
  max_entries :: nat
  entries :: "byte list list"

definition cache_create :: "nat \<Rightarrow> cache" where
  "cache_create n = \<lparr>max_entries = n, entries = []\<rparr>"

definition cache_key_exist :: "cache \<Rightarrow> byte list \<Rightarrow> bool" where
  "cache_key_exist c key = (key \<in> set (entries c))"

definition cache_insert :: "cache \<Rightarrow> byte list \<Rightarrow> cache" where
  "cache_insert c key =
     (let es = entries c @ [key]
      in c\<lparr>entries := (if max_entries c < length es then tl es else es)\<rparr>)"

section \<open>Process-wide cipher state (the static variables of encrypt.c)\<close>

record enc_globals =
  enc_table :: "byte list"
  dec_table :: "byte list"
  enc_key :: "byte list"
  enc_key_len :: nat
  enc_iv_len :: nat
  enc_method :: nat
  iv_cache :: cache
  log_lines :: "string list"

text \<open>The state before \<^verbatim>\<open>enc_init\<close>: zero-initialised statics, nothing logged.\<close>

definition globals0 :: enc_globals where
  "globals0 = \<lparr>enc_table = [], dec_table = [], enc_key = replicate 64 0, enc_key_len = 0,
     enc_iv_len = 0, enc_method = 0, iv_cache = cache_create 0, log_lines = []\<rparr>"

definition LOGE :: "string \<Rightarrow> enc_globals \<Rightarrow> enc_globals" where
  "LOGE msg g = g\<lparr>log_lines := log_lines g @ [msg]\<rparr>"

section \<open>The table cipher (encrypt.c)\<close>

text \<open>
  \<^verbatim>\<open>random_compare\<close>: \<^verbatim>\<open>a % (x + i) - a % (y + i)\<close> with \<^verbatim>\<open>uint8_t x, y\<close>,
  \<^verbatim>\<open>uint32_t i\<close> and \<^verbatim>\<open>uint64_t a\<close>; the sums are 32-bit, the remainders and their
  difference 64-bit, and the result is converted to \<^verbatim>\<open>int\<close>.
\<close>

definition random_compare :: "byte \<Rightarrow> byte \<Rightarrow> 32 word \<Rightarrow> 64 word \<Rightarrow> int" where
  "random_compare x y i a =
     sint (ucast (a mod ucast (ucast x + i) - a mod ucast (ucast y + i)) :: 32 word)"

fun merge :: "byte list \<Rightarrow> byte list \<Rightarrow> 32 word \<Rightarrow> 64 word \<Rightarrow> byte list" where
  "merge [] rr salt key = rr"
| "merge ll [] salt key = ll"
| "merge (l # ll) (r # rr) salt key =
     (if random_compare l r salt key \<le> 0 then l # merge ll (r # rr) salt key
      else r # merge (l # ll) rr salt key)"

text \<open>
  \<^verbatim>\<open>merge_sort\<close> sorts the \<^verbatim>\<open>length\<close> bytes at \<^verbatim>\<open>array\<close> in place; here it takes that
  segment and returns it sorted.  \<^verbatim>\<open>middle\<close> is a \<^verbatim>\<open>uint8_t\<close>, so \<^verbatim>\<open>length / 2\<close> is
  reduced modulo 256.  Where that gives 0 for a length above 1, the C function calls itself
  with the same arguments and never returns: the model's result is \<open>None\<close>.
\<close>

function merge_sort :: "byte list \<Rightarrow> 32 word \<Rightarrow> 64 word \<Rightarrow> byte list option" where
  "merge_sort arr salt key =
     (if length arr \<le> 1 then Some arr
      else if (length arr div 2) mod 256 = 0 then None
      else
        (case merge_sort (take (length arr - (length arr div 2) mod 256) arr) salt key of
           None \<Rightarrow> None
         | Some left \<Rightarrow>
            (case merge_sort (drop (length arr - (length arr div 2) mod 256) arr) salt key of
               None \<Rightarrow> None
             | Some right \<Rightarrow> Some (merge left right salt key))))"
  by pat_completeness auto
termination
proof (relation "measure (\<lambda>(arr, salt, key). length arr)")
  show "wf (measure (\<lambda>(arr, salt, key). length arr))"
    by simp
next
  fix arr :: "byte list" and salt :: "32 word" and key :: "64 word"
  assume "\<not> length arr \<le> 1" and "length arr div 2 mod 256 \<noteq> 0"
  then show "((take (length arr - length arr div 2 mod 256) arr, salt, key), arr, salt, key)
      \<in> measure (\<lambda>(arr, salt, key). length arr)"
    by simp
next
  fix arr :: "byte list" and salt :: "32 word" and key :: "64 word" and x2 :: "byte list"
  assume "\<not> length arr \<le> 1" and "length arr div 2 mod 256 \<noteq> 0"
  moreover have "length arr div 2 mod 256 \<le> length arr div 2"
    by simp
  ultimately show "((drop (length arr - length arr div 2 mod 256) arr, salt, key), arr, salt, key)
      \<in> measure (\<lambda>(arr, salt, key). length arr)"
    by simp
qed

text \<open>
  \<^verbatim>\<open>enc_table_init\<close>: the key is the sum of the first eight digest bytes, byte \<open>o\<close> shifted
  left by \<open>8 * o\<close> (\<^verbatim>\<open>OFFSET_ROL\<close>); the identity table is sorted 1023 times, with salts
  1 to 1023; the decrypt table is filled in by \<^verbatim>\<open>dec_table[enc_table[i]] = i\<close>.
\<close>

definition OFFSET_ROL :: "byte list \<Rightarrow> nat \<Rightarrow> 64 word" where
  "OFFSET_ROL p o' = push_bit (8 * o') (ucast (p ! o'))"

definition table_key :: "byte list \<Rightarrow> 64 word" where
  "table_key digest = fold (\<lambda>i key. key + OFFSET_ROL digest i) [0..<8] 0"

function table_rounds :: "nat \<Rightarrow> byte list \<Rightarrow> 64 word \<Rightarrow> byte list option" where
  "table_rounds i tbl key =
     (if i < 1024 then
        (case merge_sort tbl (of_nat i) key of
           None \<Rightarrow> None
         | Some tbl' \<Rightarrow> table_rounds (Suc i) tbl' key)
      else Some tbl)"
  by pat_completeness auto
termination
  by (relation "measure (\<lambda>(i, tbl, key). 1024 - i)") auto

definition gen_dec_table :: "byte list \<Rightarrow> byte list" where
  "gen_dec_table enc = fold (\<lambda>i dec. dec[unat (enc ! i) := of_nat i]) [0..<256] (replicate 256 0)"

definition pass_bytes :: "string \<Rightarrow> byte list" where
  "pass_bytes pass = map (\<lambda>c. of_nat (of_char c)) pass"

definition enc_table_init :: "'c crypto_lib \<Rightarrow> string \<Rightarrow> enc_globals \<Rightarrow> enc_globals option" where
  "enc_table_init L pass g =
     (case table_rounds 1 (map of_nat [0..<256]) (table_key (lib_MD5 L (pass_bytes pass))) of
        None \<Rightarrow> None
      | Some tbl \<Rightarrow> Some (g\<lparr>enc_table := tbl, dec_table := gen_dec_table tbl\<rparr>))"

section \<open>Start-up: enc_key_init and enc_init (encrypt.c)\<close>

definition get_cipher_type :: "'c crypto_lib \<Rightarrow> nat \<Rightarrow> enc_globals \<Rightarrow> cipher_kt option \<times> enc_globals" where
  "get_cipher_type L method g =
     (if method \<le> TABLE \<or> method \<ge> CIPHER_NUM then
        (None, LOGE ''get_cipher_type(): Illegal method'' g)
      else
        (let method' = (if method = RC4_MD5 then RC4 else method)
         in if method' \<ge> SALSA20 then (None, g)
            else (lib_cipherbyname L (supported_ciphers ! method'), g)))"

definition enc_key_init :: "'c crypto_lib \<Rightarrow> nat \<Rightarrow> string \<Rightarrow> enc_globals \<Rightarrow> enc_globals run" where
  "enc_key_init L method pass g =
     (if method \<le> TABLE \<or> method \<ge> CIPHER_NUM then
        Returns (LOGE ''enc_key_init(): Illegal method'' g)
      else
        (let g1 = g\<lparr>iv_cache := cache_create 256\<rparr>;
             sodium = (method = SALSA20 \<or> method = CHACHA20 \<or> method = CHACHA20IETF)
         in if sodium \<and> lib_sodium_init L = - 1 then Exits ''Failed to initialize sodium''
            else
              (let (cipher, g2) =
                     (if sodium then
                        (Some \<lparr>key_len = supported_ciphers_key_size ! method,
                                iv_len = supported_ciphers_iv_size ! method\<rparr>, g1)
                      else get_cipher_type L method g1)
               in case cipher of
                    None \<Rightarrow> Exits ''Cannot initialize cipher''
                  | Some kt \<Rightarrow>
                      if \<not> lib_digestbyname L ''MD5'' then
                        Exits ''MD5 Digest not found in crypto library''
                      else
                        (let (klen, kbytes) = lib_BytesToKey L kt pass
                         in if klen = 0 then Exits ''Cannot generate key and IV''
                            else Returns (g2\<lparr>enc_key := take klen kbytes @ drop klen (enc_key g2),
                                     enc_key_len := klen,
                                     enc_iv_len := (if method = RC4_MD5 then 16 else iv_len kt),
                                     enc_method := method\<rparr>)))))"

text \<open>
  The search loop of \<^verbatim>\<open>enc_init\<close>:
  \<^verbatim>\<open>for (m = TABLE; m < CIPHER_NUM; m++) if (strcmp(method, supported_ciphers[m]) == 0) break;\<close>
\<close>

function find_cipher :: "string \<Rightarrow> nat \<Rightarrow> nat" where
  "find_cipher method m =
     (if m < CIPHER_NUM then
        (if method = supported_ciphers ! m then m else find_cipher method (Suc m))
      else m)"
  by pat_completeness auto
termination
  by (relation "measure (\<lambda>(method, m). CIPHER_NUM - m)") auto

text \<open>
  \<^verbatim>\<open>enc_init\<close> returns the method number.  \<^verbatim>\<open>method\<close> is \<open>None\<close> for a \<^verbatim>\<open>NULL\<close> pointer.
  A call that never returns (see \<open>merge_sort\<close>) is \<open>None\<close>.
\<close>

definition invalid_cipher_name :: "string \<Rightarrow> string" where
  "invalid_cipher_name name = ''Invalid cipher name: '' @ name @ '', use table instead''"

definition enc_init :: "'c crypto_lib \<Rightarrow> string \<Rightarrow> string option \<Rightarrow> enc_globals \<Rightarrow> (nat \<times> enc_globals) run option" where
  "enc_init L pass method g =
     (let (m, g1) =
        (case method of
           None \<Rightarrow> (TABLE, g)
         | Some name \<Rightarrow>
             (let m = find_cipher name TABLE
              in if m \<ge> CIPHER_NUM then
                   (TABLE, LOGE (invalid_cipher_name name) g)
                 else (m, g)))
      in if m = TABLE then
           (case enc_table_init L pass g1 of
              None \<Rightarrow> None
            | Some g2 \<Rightarrow> Some (Returns (m, g2)))
         else
           (case enc_key_init L m pass g1 of
              Exits msg \<Rightarrow> Some (Exits msg)
            | Returns g2 \<Rightarrow> Some (Returns (m, g2))))"

section \<open>Buffers and memory (encrypt.c)\<close>

text \<open>
  The array of a buffer is the list of its \<open>capacity\<close> bytes.  \<open>memcpy_at dst off src n\<close>
  is \<^verbatim>\<open>memcpy(dst + off, src, n)\<close>, \<open>memmove_in a dst src n\<close> is
  \<^verbatim>\<open>memmove(a + dst, a + src, n)\<close> and \<open>memset_at a off v n\<close> is \<^verbatim>\<open>memset(a + off, v, n)\<close>,
  each for a range inside the arrays.  \<^verbatim>\<open>realloc\<close> keeps the old bytes; the new ones,
  indeterminate in C, are 0 here.

  \<^verbatim>\<open>ss_free\<close> (utils.h) is a function, so the \<^verbatim>\<open>ptr = NULL\<close> in it changes its own
  parameter only: after \<^verbatim>\<open>bfree\<close> the field \<^verbatim>\<open>array\<close> still holds the address of the
  block that was freed.  \<open>free_block\<close> and \<open>realloc_block\<close> say what \<^verbatim>\<open>free\<close> and
  \<^verbatim>\<open>realloc\<close> make of the pointer; \<^verbatim>\<open>bfree\<close> calls \<^verbatim>\<open>ss_free\<close> unless the pointer is
  \<^verbatim>\<open>NULL\<close>.
\<close>

definition free_block :: "block \<Rightarrow> block" where
  "free_block p = (case p of Null_ptr \<Rightarrow> Null_ptr | Allocated \<Rightarrow> Dangling
                   | Dangling \<Rightarrow> Corrupt | Corrupt \<Rightarrow> Corrupt)"

definition realloc_block :: "block \<Rightarrow> block" where
  "realloc_block p = (case p of Null_ptr \<Rightarrow> Allocated | Allocated \<Rightarrow> Allocated
                      | Dangling \<Rightarrow> Corrupt | Corrupt \<Rightarrow> Corrupt)"

definition memcpy_at :: "byte list \<Rightarrow> nat \<Rightarrow> byte list \<Rightarrow> nat \<Rightarrow> byte list" where
  "memcpy_at dst off src n = take off dst @ take n src @ drop (off + n) dst"

definition memmove_in :: "byte list \<Rightarrow> nat \<Rightarrow> nat \<Rightarrow> nat \<Rightarrow> byte list" where
  "memmove_in a dst src n = take dst a @ take n (drop src a) @ drop (dst + n) a"

definition memset_at :: "byte list \<Rightarrow> nat \<Rightarrow> byte \<Rightarrow> nat \<Rightarrow> byte list" where
  "memset_at a off v n = take off a @ replicate n v @ drop (off + n) a"

definition balloc :: "nat \<Rightarrow> buffer" where
  "balloc cap = \<lparr>idx = 0, len = 0, capacity = cap, array = replicate cap 0,
     array_ptr = Allocated\<rparr>"

definition brealloc :: "buffer \<Rightarrow> nat \<Rightarrow> nat \<Rightarrow> buffer" where
  "brealloc ptr n cap =
     (let real_capacity = max n cap
      in if capacity ptr < real_capacity then
           ptr\<lparr>array := array ptr @ replicate (real_capacity - length (array ptr)) 0,
               array_ptr := realloc_block (array_ptr ptr),
               capacity := real_capacity\<rparr>
         else ptr)"

definition bfree :: "buffer \<Rightarrow> buffer" where
  "bfree ptr = ptr\<lparr>idx := 0, len := 0, capacity := 0, array := [],
     array_ptr := free_block (array_ptr ptr)\<rparr>"

section \<open>One-time authentication of the header (encrypt.c)\<close>

text \<open>
  \<^verbatim>\<open>ss_onetimeauth_verify(buf, iv)\<close>: the key is the first \<^verbatim>\<open>enc_iv_len\<close> bytes of \<open>iv\<close>
  followed by the first \<^verbatim>\<open>enc_key_len\<close> bytes of the key, the message is the buffer
  without its last 10 bytes, and those 10 bytes are compared with the start of the digest.
\<close>

definition ss_onetimeauth_verify :: "'c crypto_lib \<Rightarrow> enc_globals \<Rightarrow> buffer \<Rightarrow> byte list \<Rightarrow> int" where
  "ss_onetimeauth_verify L g buf iv =
     (let auth_key = take (enc_iv_len g) iv @ take (enc_key_len g) (enc_key g);
          n = size_sub (len buf) ONETIMEAUTH_BYTES;
          hash = lib_HMAC_SHA1 L auth_key (take n (array buf))
      in safe_memcmp (drop n (array buf)) hash ONETIMEAUTH_BYTES)"

section \<open>A stand-in library\<close>

text \<open>
  To run the model on concrete inputs the library functions need values.  This stand-in
  has a one-byte cipher context that is combined with every byte by exclusive or, digests
  that repeat the sum of their input, and key streams that depend on the position only.
\<close>

definition stub_lib :: "byte crypto_lib" where
  "stub_lib =
     \<lparr>lib_MD5 = (\<lambda>d. replicate 16 (fold (+) d 0)),
      lib_HMAC_SHA1 = (\<lambda>k m. replicate 20 (fold (+) (k @ m) 0)),
      lib_cipherbyname = (\<lambda>name. Some \<lparr>key_len = 16, iv_len = 16\<rparr>),
      lib_digestbyname = (\<lambda>name. True),
      lib_BytesToKey = (\<lambda>kt pass. (key_len kt, replicate (key_len kt) 7)),
      lib_CipherInit = (\<lambda>name klen enc. Some 0),
      lib_CipherSetKeyIV = (\<lambda>c k iv enc. Some (fold (+) (k @ iv) 0)),
      lib_CipherUpdate = (\<lambda>c input. (1, map (\<lambda>b. b XOR c) input, c)),
      lib_salsa20 = (\<lambda>n ic k i. of_nat i),
      lib_chacha20 = (\<lambda>n ic k i. of_nat i + 1),
      lib_chacha20_ietf = (\<lambda>n ic k i. of_nat i + 2),
      lib_sodium_init = 0,
      lib_zero_ctx = 0\<rparr>"

text \<open>Whether a start-up call ended the process.\<close>

definition startup_aborts :: "'a run option \<Rightarrow> bool" where
  "startup_aborts r = (case r of Some (Exits msg) \<Rightarrow> True | _ \<Rightarrow> False)"

section \<open>Cipher contexts (encrypt.c)\<close>


record 'c cipher_ctx =
  cipher_evp :: 'c
  cipher_iv :: "byte list"

record 'c enc_ctx =
  init :: bool
  counter :: "64 word"
  evp :: "'c cipher_ctx"


text \<open>
  \<^verbatim>\<open>cipher_context_set_iv(ctx, iv, iv_len, enc)\<close>.  The library is handed the key pointer and
  the IV pointer; it reads the key length set at initialisation and as many IV bytes as
  the cipher has, which is \<open>ivl\<close> here (none for rc4-md5, whose key is the MD5 of key and
  IV).
\<close>

definition cipher_context_set_iv ::
  "'c crypto_lib \<Rightarrow> enc_globals \<Rightarrow> 'c cipher_ctx \<Rightarrow> byte list \<Rightarrow> nat \<Rightarrow> bool \<Rightarrow> 'c cipher_ctx run" where
  "cipher_context_set_iv L g ctx iv ivl enc =
     (let ctx1 = (if \<not> enc then ctx\<lparr>cipher_iv := memcpy_at (cipher_iv ctx) 0 iv ivl\<rparr> else ctx)
      in if enc_method g \<ge> SALSA20 then Returns ctx1
         else
           (let (true_key, ivl') =
                  (if enc_method g = RC4_MD5 then
                     (lib_MD5 L (take 16 (enc_key g) @ take 16 iv), 0)
                   else (enc_key g, ivl))
            in case lib_CipherSetKeyIV L (cipher_evp ctx1) (take (enc_key_len g) true_key)
                      (take ivl' iv) enc of
                 None \<Rightarrow> Exits ''Cannot set key and IV''
               | Some c \<Rightarrow> Returns (ctx1\<lparr>cipher_evp := c\<rparr>)))"

definition cipher_context_update ::
  "'c crypto_lib \<Rightarrow> 'c cipher_ctx \<Rightarrow> byte list \<Rightarrow> int \<times> byte list \<times> 'c cipher_ctx" where
  "cipher_context_update L ctx input =
     (let (err, out, c) = lib_CipherUpdate L (cipher_evp ctx) input
      in (err, out, ctx\<lparr>cipher_evp := c\<rparr>))"

text \<open>
  \<^verbatim>\<open>crypto_stream_xor_ic(c, m, mlen, n, ic, k, method)\<close>: the bytes at \<open>c\<close> afterwards.  For a
  method outside the Salsa/ChaCha family nothing is written.
\<close>

definition xor_stream :: "byte list \<Rightarrow> (nat \<Rightarrow> byte) \<Rightarrow> byte list" where
  "xor_stream m ks = map (\<lambda>(b, i). b XOR ks i) (zip m [0..<length m])"

definition crypto_stream_xor_ic ::
  "'c crypto_lib \<Rightarrow> byte list \<Rightarrow> byte list \<Rightarrow> byte list \<Rightarrow> 64 word \<Rightarrow> byte list \<Rightarrow> nat \<Rightarrow> byte list" where
  "crypto_stream_xor_ic L c m n ic k meth =
     (if meth = SALSA20 then xor_stream m (lib_salsa20 L n ic k)
      else if meth = CHACHA20 then xor_stream m (lib_chacha20 L n ic k)
      else if meth = CHACHA20IETF then xor_stream m (lib_chacha20_ietf L n (ucast ic) k)
      else c)"


section \<open>Stream encryption and decryption (encrypt.c)\<close>

text \<open>
  With a \<^verbatim>\<open>NULL\<close> context (\<open>None\<close>) the table cipher substitutes the first \<^verbatim>\<open>len\<close> bytes in
  place.
\<close>

definition table_apply :: "byte list \<Rightarrow> buffer \<Rightarrow> buffer" where
  "table_apply tbl buf =
     buf\<lparr>array := map (\<lambda>b. tbl ! unat b) (take (len buf) (array buf)) @ drop (len buf) (array buf)\<rparr>"

text \<open>
  \<^verbatim>\<open>ss_encrypt(plain, ctx, capacity)\<close> returns the status, the buffer and the context.  The
  static scratch buffer \<^verbatim>\<open>tmp\<close> is written before it is read, so it is a local value: the
  IV goes first (on the first call), the cipher text after it.
\<close>

definition ss_encrypt ::
  "'c crypto_lib \<Rightarrow> enc_globals \<Rightarrow> buffer \<Rightarrow> 'c enc_ctx option \<Rightarrow> nat
     \<Rightarrow> (int \<times> buffer \<times> 'c enc_ctx option) run" where
  "ss_encrypt L g plain ctx cap =
     (case ctx of
        None \<Rightarrow> Returns (0, table_apply (enc_table g) plain, None)
      | Some ctx0 \<Rightarrow>
          (let ivl = (if \<not> init ctx0 then enc_iv_len g else 0)
           in case (if \<not> init ctx0 then
                      cipher_context_set_iv L g (evp ctx0) (cipher_iv (evp ctx0)) ivl True
                    else Returns (evp ctx0)) of
                Exits msg \<Rightarrow> Exits msg
              | Returns e \<Rightarrow>
                  (let ctx1 = (if \<not> init ctx0 then ctx0\<lparr>evp := e, counter := 0, init := True\<rparr>
                               else ctx0);
                       ivpart = take ivl (cipher_iv (evp ctx0))
                   in if enc_method g \<ge> SALSA20 then
                        (let padding = unat (counter ctx1) mod SODIUM_BLOCK_SIZE;
                             plain1 =
                               (if padding \<noteq> 0 then
                                  (let p = brealloc plain (len plain + padding) cap
                                   in p\<lparr>array := memset_at
                                          (memmove_in (array p) padding 0 (len plain)) 0 0 padding\<rparr>)
                                else plain);
                             out = crypto_stream_xor_ic L
                                     (replicate (len plain + padding) 0)
                                     (take (len plain + padding) (array plain1))
                                     (cipher_iv (evp ctx1))
                                     (counter ctx1 div of_nat SODIUM_BLOCK_SIZE)
                                     (enc_key g) (enc_method g);
                             ctx2 = ctx1\<lparr>counter := counter ctx1 + of_nat (len plain)\<rparr>;
                             cipher = ivpart @ take (len plain) (drop padding out);
                             plain2 = brealloc plain1 (ivl + len plain) cap
                         in Returns (0,
                              plain2\<lparr>array := memcpy_at (array plain2) 0 cipher (ivl + len plain),
                                     len := ivl + len plain\<rparr>,
                              Some ctx2))
                      else
                        (let (err, out, e') =
                               cipher_context_update L (evp ctx1) (take (len plain) (array plain))
                         in if err = 0 then Returns (- 1, plain, Some (ctx1\<lparr>evp := e'\<rparr>))
                            else
                              (let cipher = ivpart @ out;
                                   plain2 = brealloc plain (ivl + length out) cap
                               in Returns (0,
                                    plain2\<lparr>array := memcpy_at (array plain2) 0 cipher (ivl + length out),
                                           len := ivl + length out\<rparr>,
                                    Some (ctx1\<lparr>evp := e'\<rparr>)))))))"

text \<open>
  \<^verbatim>\<open>ss_decrypt(cipher, ctx, capacity)\<close>.  On the first call of a context the leading
  \<^verbatim>\<open>enc_iv_len\<close> bytes are the IV: they are set in the context and, for every method from
  rc4-md5 on, looked up in the replay cache; a known IV frees the buffer and returns -1,
  an unknown one is inserted.  The rest is decrypted and copied back to the start of the
  buffer.
\<close>

definition ss_decrypt_data ::
  "'c crypto_lib \<Rightarrow> enc_globals \<Rightarrow> buffer \<Rightarrow> 'c enc_ctx \<Rightarrow> nat \<Rightarrow> nat
     \<Rightarrow> int \<times> buffer \<times> 'c enc_ctx" where
  "ss_decrypt_data L g cipher ctx1 ivl cap =
     (let n = size_sub (len cipher) ivl
      in if enc_method g \<ge> SALSA20 then
           (let padding = unat (counter ctx1) mod SODIUM_BLOCK_SIZE;
                cipher1 =
                  (if padding \<noteq> 0 then
                     (let p = brealloc cipher (len cipher + padding) cap
                      in p\<lparr>array := memset_at
                             (memmove_in (array p) (ivl + padding) ivl n) ivl 0 padding\<rparr>)
                   else cipher);
                out = crypto_stream_xor_ic L
                        (replicate (n + padding) 0)
                        (take (n + padding) (drop ivl (array cipher1)))
                        (cipher_iv (evp ctx1))
                        (counter ctx1 div of_nat SODIUM_BLOCK_SIZE)
                        (enc_key g) (enc_method g);
                ctx2 = ctx1\<lparr>counter := counter ctx1 + of_nat n\<rparr>;
                plain = take n (drop padding out);
                cipher2 = brealloc cipher1 n cap
            in (0, cipher2\<lparr>array := memcpy_at (array cipher2) 0 plain n, len := n\<rparr>, ctx2))
         else
           (let (err, out, e') =
                  cipher_context_update L (evp ctx1) (take n (drop ivl (array cipher)))
            in if err = 0 then (- 1, bfree cipher, ctx1\<lparr>evp := e'\<rparr>)
               else
                 (let cipher2 = brealloc cipher (length out) cap
                  in (0, cipher2\<lparr>array := memcpy_at (array cipher2) 0 out (length out),
                                 len := length out\<rparr>,
                      ctx1\<lparr>evp := e'\<rparr>))))"

definition ss_decrypt ::
  "'c crypto_lib \<Rightarrow> enc_globals \<Rightarrow> buffer \<Rightarrow> 'c enc_ctx option \<Rightarrow> nat
     \<Rightarrow> (int \<times> buffer \<times> 'c enc_ctx option \<times> enc_globals) run" where
  "ss_decrypt L g cipher ctx cap =
     (case ctx of
        None \<Rightarrow> Returns (0, table_apply (dec_table g) cipher, None, g)
      | Some ctx0 \<Rightarrow>
          if \<not> init ctx0 then
            (let ivl = enc_iv_len g;
                 iv = take ivl (array cipher)
             in case cipher_context_set_iv L g (evp ctx0) iv ivl False of
                  Exits msg \<Rightarrow> Exits msg
                | Returns e \<Rightarrow>
                    (let ctx1 = ctx0\<lparr>evp := e, counter := 0, init := True\<rparr>
                     in if enc_method g \<ge> RC4_MD5 \<and> cache_key_exist (iv_cache g) iv then
                          Returns (- 1, bfree cipher, Some ctx1, g)
                        else
                          (let g1 = (if enc_method g \<ge> RC4_MD5 then
                                       g\<lparr>iv_cache := cache_insert (iv_cache g) iv\<rparr>
                                     else g);
                               (ret, cipher', ctx2) = ss_decrypt_data L g1 cipher ctx1 ivl cap
                           in Returns (ret, cipher', Some ctx2, g1))))
          else
            (let (ret, cipher', ctx2) = ss_decrypt_data L g cipher ctx0 0 cap
             in Returns (ret, cipher', Some ctx2, g)))"

section \<open>Chunk authentication (encrypt.c)\<close>

text \<open>
  \<^verbatim>\<open>htons\<close> and \<^verbatim>\<open>htonl\<close> followed by a \<^verbatim>\<open>memcpy\<close> of the value store it big-endian,
  whatever the byte order of the host; \<^verbatim>\<open>ntohs\<close> of the two bytes read as a
  \<^verbatim>\<open>uint16_t\<close> is their big-endian value.
\<close>

definition htons_bytes :: "nat \<Rightarrow> byte list" where
  "htons_bytes n = [of_nat ((n mod 65536) div 256), of_nat (n mod 256)]"

definition htonl_bytes :: "32 word \<Rightarrow> byte list" where
  "htonl_bytes c = [ucast (drop_bit 24 c), ucast (drop_bit 16 c), ucast (drop_bit 8 c), ucast c]"

definition ntohs_bytes :: "byte list \<Rightarrow> nat" where
  "ntohs_bytes a = unat (a ! 0) * 256 + unat (a ! 1)"

text \<open>
  \<^verbatim>\<open>chunk_t\<close>: the reassembly index, the length of the chunk being reassembled, the chunk
  counter and the reassembly buffer.
\<close>

record chunk =
  chunk_idx :: nat
  chunk_len :: nat
  chunk_counter :: "32 word"
  chunk_buf :: buffer

text \<open>
  The IV array read through a context pointer.  With a \<^verbatim>\<open>NULL\<close> context (\<open>None\<close>) the
  method is the table cipher, \<^verbatim>\<open>enc_iv_len\<close> is 0 and no byte is read.  The HMAC key of a
  chunk is the first \<^verbatim>\<open>enc_iv_len\<close> bytes of that IV followed by the counter.
\<close>

definition ctx_iv :: "'c enc_ctx option \<Rightarrow> byte list" where
  "ctx_iv ctx = (case ctx of None \<Rightarrow> [] | Some c \<Rightarrow> cipher_iv (evp c))"

definition chunk_key :: "enc_globals \<Rightarrow> 'c enc_ctx option \<Rightarrow> 32 word \<Rightarrow> byte list" where
  "chunk_key g ctx c = take (enc_iv_len g) (ctx_iv ctx) @ htonl_bytes c"

text \<open>
  \<^verbatim>\<open>ss_gen_hash(buf, counter, ctx, capacity)\<close> returns 0, the framed buffer and the counter.
\<close>

definition ss_gen_hash ::
  "'c crypto_lib \<Rightarrow> enc_globals \<Rightarrow> buffer \<Rightarrow> 32 word \<Rightarrow> 'c enc_ctx option \<Rightarrow> nat \<Rightarrow> int \<times> buffer \<times> 32 word" where
  "ss_gen_hash L g buf cnt ctx cap =
     (let blen = len buf;
          buf1 = brealloc buf (AUTH_BYTES + blen) cap;
          hash = lib_HMAC_SHA1 L (chunk_key g ctx cnt) (take blen (array buf1));
          a1 = memmove_in (array buf1) AUTH_BYTES 0 blen;
          a2 = memcpy_at a1 CLEN_BYTES hash ONETIMEAUTH_BYTES;
          a3 = memcpy_at a2 0 (htons_bytes blen) CLEN_BYTES
      in (0, buf1\<lparr>array := a3, len := blen + AUTH_BYTES\<rparr>, cnt + 1))"

text \<open>
  One iteration of the loop of \<^verbatim>\<open>ss_check_hash\<close>, for the loop index \<open>i\<close>: the local
  variables \<^verbatim>\<open>j\<close>, \<^verbatim>\<open>k\<close> and \<^verbatim>\<open>cidx\<close>, the array of \<^verbatim>\<open>buf\<close> and the chunk state
  before and after.  The first component of the result is \<open>False\<close> where the C function
  returns 0 from inside the loop.
\<close>

definition check_hash_step ::
  "'c crypto_lib \<Rightarrow> enc_globals \<Rightarrow> 'c enc_ctx option \<Rightarrow> nat \<Rightarrow> nat \<Rightarrow> nat
     \<Rightarrow> nat \<times> nat \<times> nat \<times> byte list \<times> chunk
     \<Rightarrow> bool \<times> nat \<times> nat \<times> nat \<times> byte list \<times> chunk" where
  "check_hash_step L g ctx cap blen i st =
     (case st of (j, k, cidx, barr, ch) \<Rightarrow>
        (let cb1 = (chunk_buf ch)\<lparr>array := (array (chunk_buf ch))[cidx := barr ! k]\<rparr>;
             cidx1 = cidx + 1;
             k1 = k + 1;
             ch1 = (if cidx1 = CLEN_BYTES then
                      (let clen = ntohs_bytes (array cb1)
                       in ch\<lparr>chunk_buf := brealloc cb1 (clen + AUTH_BYTES) cap, chunk_len := clen\<rparr>)
                    else ch\<lparr>chunk_buf := cb1\<rparr>)
         in if cidx1 = chunk_len ch1 + AUTH_BYTES then
              (let hash = lib_HMAC_SHA1 L (chunk_key g ctx (chunk_counter ch1))
                            (take (chunk_len ch1) (drop AUTH_BYTES (array (chunk_buf ch1))))
               in if safe_memcmp hash (drop CLEN_BYTES (array (chunk_buf ch1))) ONETIMEAUTH_BYTES \<noteq> 0
                  then (False, j, k1, cidx1, barr, ch1)
                  else
                    (let b1 = memmove_in barr (j + chunk_len ch1) k1 (blen - i - 1);
                         b2 = memcpy_at b1 j (drop AUTH_BYTES (array (chunk_buf ch1))) (chunk_len ch1)
                     in (True, j + chunk_len ch1, j + chunk_len ch1, 0, b2,
                         ch1\<lparr>chunk_counter := chunk_counter ch1 + 1\<rparr>)))
            else (True, j, k1, cidx1, barr, ch1)))"

function check_hash_loop ::
  "'c crypto_lib \<Rightarrow> enc_globals \<Rightarrow> 'c enc_ctx option \<Rightarrow> nat \<Rightarrow> nat \<Rightarrow> nat
     \<Rightarrow> nat \<times> nat \<times> nat \<times> byte list \<times> chunk
     \<Rightarrow> bool \<times> nat \<times> nat \<times> nat \<times> byte list \<times> chunk" where
  "check_hash_loop L g ctx cap blen i st =
     (if i < blen then
        (case check_hash_step L g ctx cap blen i st of
           (False, st') \<Rightarrow> (False, st')
         | (True, st') \<Rightarrow> check_hash_loop L g ctx cap blen (i + 1) st')
      else (True, st))"
  by pat_completeness auto
termination
  by (relation "measure (\<lambda>(L, g, ctx, cap, blen, i, st). blen - i)") auto

text \<open>
  \<^verbatim>\<open>ss_check_hash(buf, chunk, ctx, capacity)\<close> returns 1 with the verified payload in \<open>buf\<close>,
  or 0 at the first chunk whose MAC differs.
\<close>

definition ss_check_hash ::
  "'c crypto_lib \<Rightarrow> enc_globals \<Rightarrow> buffer \<Rightarrow> chunk \<Rightarrow> 'c enc_ctx option \<Rightarrow> nat \<Rightarrow> int \<times> buffer \<times> chunk" where
  "ss_check_hash L g buf ch ctx cap =
     (let blen = len buf;
          ch0 = ch\<lparr>chunk_buf := brealloc (chunk_buf ch) (chunk_len ch + blen) cap\<rparr>;
          buf0 = brealloc buf (chunk_len ch + blen) cap;
          (ok, j, k, cidx, barr, ch1) =
             check_hash_loop L g ctx cap blen 0 (0, 0, chunk_idx ch, array buf0, ch0)
      in if ok then (1, buf0\<lparr>array := barr, len := j\<rparr>, ch1\<lparr>chunk_idx := cidx\<rparr>)
         else (0, buf0\<lparr>array := barr\<rparr>, ch1))"

text \<open>\<^verbatim>\<open>new_server\<close> clears the chunk state and its buffer with \<^verbatim>\<open>memset\<close>.\<close>

definition chunk0 :: chunk where
  "chunk0 = \<lparr>chunk_idx = 0, chunk_len = 0, chunk_counter = 0,
     chunk_buf = \<lparr>idx = 0, len = 0, capacity = 0, array = [], array_ptr = Null_ptr\<rparr>\<rparr>"

section \<open>The connection (server.c)\<close>

text \<open>
  The system calls are not part of the program; what they return reaches a callback as an
  argument.  \<open>recv_result\<close>: \<^verbatim>\<open>recv\<close> returned 0, returned -1 with \<^verbatim>\<open>EAGAIN\<close> or
  \<^verbatim>\<open>EWOULDBLOCK\<close>, returned -1 with another error, or stored the given bytes.
  \<open>send_result\<close>: \<^verbatim>\<open>send\<close> returned -1 with \<^verbatim>\<open>EAGAIN\<close> or \<^verbatim>\<open>EWOULDBLOCK\<close>, returned -1
  with another error, or accepted that many bytes.  \<open>connect_result\<close>: \<^verbatim>\<open>socket\<close> failed,
  the connection is under way (\<^verbatim>\<open>connect\<close>, or a fast-open \<^verbatim>\<open>sendto\<close> that returned -1),
  or the fast-open \<^verbatim>\<open>sendto\<close> accepted that many bytes.
\<close>

datatype recv_result = RecvClosed | RecvAgain | RecvError | RecvData "byte list"

datatype send_result = SendAgain | SendError | Sent nat

datatype connect_result = SocketFailed | Connecting | FastOpenSent nat

text \<open>
  \<^verbatim>\<open>remote_t\<close>: the buffer towards the target, whether the read and the write watcher of
  the target socket are started, and \<^verbatim>\<open>send_ctx->connected\<close>.
\<close>

record remote_t =
  remote_buf :: buffer
  remote_recv_io :: bool
  remote_send_io :: bool
  connected :: bool

text \<open>
  \<^verbatim>\<open>server_t\<close>: stage, the connection's auth flag, the buffer towards the client, the
  chunk state, the two cipher contexts (\<open>None\<close> is \<^verbatim>\<open>NULL\<close>, the table cipher), whether
  the read and the write watcher of the client socket are started, whether a resolver
  query is pending, the target side (\<open>None\<close> is \<^verbatim>\<open>NULL\<close>), whether
  \<^verbatim>\<open>close_and_free_server\<close> has run, and whether freeing the buffers of the connection
  has handed a dangling pointer to \<^verbatim>\<open>free\<close>.
\<close>

record 'c server_t =
  stage :: nat
  auth :: bool
  buf :: buffer
  chunk :: chunk
  e_ctx :: "'c enc_ctx option"
  d_ctx :: "'c enc_ctx option"
  recv_io :: bool
  send_io :: bool
  query :: bool
  remote :: "remote_t option"
  freed :: bool
  heap_fault :: bool

text \<open>
  The start-up configuration a callback reads: the static \<^verbatim>\<open>auth\<close> (option -A), the static
  \<^verbatim>\<open>fast_open\<close>, and libcork's \<^verbatim>\<open>cork_ip_init\<close>, which tells whether a host name is a
  literal IP address.
\<close>

record config =
  cfg_auth :: bool
  cfg_fast_open :: bool
  cork_ip_init :: "byte list \<Rightarrow> bool"

text \<open>
  \<^verbatim>\<open>close_and_free_remote\<close> stops the watchers of the target and calls \<^verbatim>\<open>free_remote\<close>,
  which frees the target's buffer with \<^verbatim>\<open>bfree\<close>.  \<^verbatim>\<open>close_and_free_server\<close> cancels the
  query, stops the watchers and calls \<^verbatim>\<open>free_server\<close>, which frees the chunk buffer and
  then the connection's buffer with \<^verbatim>\<open>bfree\<close>.
\<close>

definition close_and_free_remote :: "'c server_t \<Rightarrow> 'c server_t" where
  "close_and_free_remote s =
     (case remote s of
        None \<Rightarrow> s
      | Some r \<Rightarrow>
          s\<lparr>remote := None,
            heap_fault := (heap_fault s \<or> array_ptr (bfree (remote_buf r)) = Corrupt)\<rparr>)"

definition close_and_free_server :: "'c server_t \<Rightarrow> 'c server_t" where
  "close_and_free_server s =
     s\<lparr>query := False, send_io := False, recv_io := False, freed := True,
       chunk := (chunk s)\<lparr>chunk_buf := bfree (chunk_buf (chunk s))\<rparr>,
       buf := bfree (buf s),
       heap_fault := (heap_fault s \<or> array_ptr (bfree (chunk_buf (chunk s))) = Corrupt
                      \<or> array_ptr (bfree (buf s)) = Corrupt)\<rparr>"

definition close_and_free :: "'c server_t \<Rightarrow> 'c server_t" where
  "close_and_free s = close_and_free_server (close_and_free_remote s)"

definition new_remote :: remote_t where
  "new_remote = \<lparr>remote_buf = balloc BUF_SIZE, remote_recv_io = False, remote_send_io = False,
     connected = False\<rparr>"



definition parse_header_len :: "byte \<Rightarrow> byte list \<Rightarrow> nat \<Rightarrow> nat" where
  "parse_header_len atyp dat offset =
     (if atyp AND ADDRTYPE_MASK = 1 then 4
      else if atyp AND ADDRTYPE_MASK = 3 then unat (dat ! offset) + 1
      else if atyp AND ADDRTYPE_MASK = 4 then 16
      else 0) + 2"

text \<open>
  \<^verbatim>\<open>connect_to_remote\<close>: \<open>None\<close> where it returns \<^verbatim>\<open>NULL\<close>; with fast open the bytes the
  \<^verbatim>\<open>sendto\<close> accepted are taken off the client-side buffer.
\<close>

definition connect_to_remote :: "config \<Rightarrow> connect_result \<Rightarrow> 'c server_t \<Rightarrow> remote_t option \<times> 'c server_t" where
  "connect_to_remote cfg cres s =
     (case cres of
        SocketFailed \<Rightarrow> (None, s)
      | Connecting \<Rightarrow> (Some new_remote, s)
      | FastOpenSent n \<Rightarrow>
          if cfg_fast_open cfg then
            (if n \<le> len (buf s) then
               (Some new_remote, s\<lparr>buf := (buf s)\<lparr>idx := idx (buf s) + n, len := len (buf s) - n\<rparr>\<rparr>)
             else (Some new_remote, s\<lparr>buf := (buf s)\<lparr>idx := 0, len := 0\<rparr>\<rparr>))
          else (Some new_remote, s))"

text \<open>
  The first part of the stage-0 branch of \<^verbatim>\<open>server_recv_cb\<close>: the one-time authentication
  of the header, taken when the static \<^verbatim>\<open>auth\<close> is set or the ATYP byte carries
  \<^verbatim>\<open>ONETIMEAUTH_FLAG\<close>.
\<close>

definition handshake_auth :: "'c crypto_lib \<Rightarrow> config \<Rightarrow> enc_globals \<Rightarrow> 'c server_t \<Rightarrow> 'c server_t" where
  "handshake_auth L cfg g s =
     (let offset = 1;
          atyp = array (buf s) ! 0
      in if cfg_auth cfg \<or> atyp AND ONETIMEAUTH_FLAG \<noteq> 0 then
           (let header_len = parse_header_len atyp (array (buf s)) offset;
                n = len (buf s)
            in if n < offset + header_len + ONETIMEAUTH_BYTES then close_and_free_server s
               else if ss_onetimeauth_verify L g
                         ((buf s)\<lparr>len := offset + header_len + ONETIMEAUTH_BYTES\<rparr>)
                         (ctx_iv (d_ctx s)) \<noteq> 0
               then close_and_free_server s
               else s\<lparr>auth := True\<rparr>)
         else s)"

text \<open>
  The address part: the offset after the address and whether a resolver query is needed;
  \<open>None\<close> where the header is refused (the address does not fit, or the type is unknown and
  the offset is still 1).
\<close>

definition handshake_addr :: "config \<Rightarrow> buffer \<Rightarrow> (nat \<times> bool) option" where
  "handshake_addr cfg b =
     (let offset = 1;
          atyp = array b ! 0
      in if atyp AND ADDRTYPE_MASK = 1 then
           (if len b \<ge> 4 + 3 then Some (offset + 4, False) else None)
         else if atyp AND ADDRTYPE_MASK = 3 then
           (let name_len = unat (array b ! offset)
            in if name_len + 4 \<le> len b then
                 Some (offset + (name_len + 1),
                       \<not> cork_ip_init cfg (take name_len (drop (offset + 1) (array b))))
               else None)
         else if atyp AND ADDRTYPE_MASK = 4 then
           (if len b \<ge> 16 + 3 then Some (offset + 16, False) else None)
         else None)"

text \<open>
  The block marked "should handle buffer carefully" in \<^verbatim>\<open>server_recv_cb\<close> and
  \<^verbatim>\<open>server_resolve_cb\<close>: what is left in the client-side buffer becomes the first data of
  the target side.  \<open>off\<close> is where the copy starts: \<^verbatim>\<open>server_recv_cb\<close> copies from
  \<^verbatim>\<open>array\<close>, \<^verbatim>\<open>server_resolve_cb\<close> from \<^verbatim>\<open>array + idx\<close>.
\<close>

definition hand_over :: "nat \<Rightarrow> remote_t \<Rightarrow> 'c server_t \<Rightarrow> remote_t \<times> 'c server_t" where
  "hand_over off r s =
     (if len (buf s) > 0 then
        (r\<lparr>remote_buf := (remote_buf r)
             \<lparr>array := memcpy_at (array (remote_buf r)) 0 (drop off (array (buf s))) (len (buf s)),
              len := len (buf s), idx := 0\<rparr>\<rparr>,
         s\<lparr>buf := (buf s)\<lparr>len := 0, idx := 0\<rparr>\<rparr>)
      else (r, s))"

text \<open>
  The end of the stage-0 branch: the target is connected, or the resolver asked; either
  way the stage becomes 4 and the client's read watcher is stopped.
\<close>

definition handshake_target :: "config \<Rightarrow> connect_result \<Rightarrow> bool \<Rightarrow> 'c server_t \<Rightarrow> 'c server_t" where
  "handshake_target cfg cres need_query s =
     (if \<not> need_query then
        (case connect_to_remote cfg cres s of
           (None, s1) \<Rightarrow> close_and_free_server s1
         | (Some r, s1) \<Rightarrow>
             (let (r1, s2) = hand_over 0 r s1
              in s2\<lparr>stage := 4, recv_io := False,
                    remote := Some (r1\<lparr>remote_send_io := True\<rparr>)\<rparr>))
      else s\<lparr>stage := 4, query := True, recv_io := False\<rparr>)"

text \<open>
  The second part of the stage-0 branch: the header is cut off and the payload that came
  with it is verified if the connection authenticates chunks.
\<close>

definition handshake_connect ::
  "'c crypto_lib \<Rightarrow> config \<Rightarrow> enc_globals \<Rightarrow> connect_result \<Rightarrow> 'c server_t \<Rightarrow> 'c server_t" where
  "handshake_connect L cfg g cres s =
     (case handshake_addr cfg (buf s) of
        None \<Rightarrow> close_and_free_server s
      | Some (offset0, need_query) \<Rightarrow>
          (let offset = offset0 + 2 + (if auth s then ONETIMEAUTH_BYTES else 0)
           in if len (buf s) < offset then close_and_free_server s
              else
                (let n = len (buf s) - offset;
                     s1 = s\<lparr>buf := (buf s)\<lparr>len := n, array := memmove_in (array (buf s)) 0 offset n\<rparr>\<rparr>;
                     (ok, b2, ch2) =
                        (if auth s1 then ss_check_hash L g (buf s1) (chunk s1) (d_ctx s1) BUF_SIZE
                         else (1, buf s1, chunk s1))
                 in if auth s1 \<and> ok = 0 then
                      close_and_free_server (s1\<lparr>buf := b2, chunk := ch2\<rparr>)
                    else handshake_target cfg cres need_query (s1\<lparr>buf := b2, chunk := ch2\<rparr>))))"

section \<open>The callbacks (server.c)\<close>

text \<open>
  The \<^verbatim>\<open>send\<close> to the target at the end of the stage-5 branch of \<^verbatim>\<open>server_recv_cb\<close>,
  with the bytes of buffer \<open>b\<close> offered: on \<^verbatim>\<open>EAGAIN\<close> and on a partial send the unsent
  bytes stay in the buffer, the client's read watcher is stopped and the target's write
  watcher started.  \<^verbatim>\<open>send\<close> accepts at most the bytes it is offered.
\<close>

definition server_recv_send :: "send_result \<Rightarrow> 'c server_t \<Rightarrow> remote_t \<Rightarrow> buffer \<Rightarrow> 'c server_t" where
  "server_recv_send sres s r b =
     (case sres of
        SendAgain \<Rightarrow>
          s\<lparr>recv_io := False,
            remote := Some (r\<lparr>remote_buf := b\<lparr>idx := 0\<rparr>, remote_send_io := True\<rparr>)\<rparr>
      | SendError \<Rightarrow> close_and_free s
      | Sent n0 \<Rightarrow>
          (let n = min n0 (len b)
           in if n < len b then
                s\<lparr>recv_io := False,
                  remote := Some (r\<lparr>remote_buf := b\<lparr>len := len b - n, idx := n\<rparr>,
                                   remote_send_io := True\<rparr>)\<rparr>
              else s\<lparr>remote := Some (r\<lparr>remote_buf := b\<rparr>)\<rparr>))"

text \<open>
  The stage-5 branch of \<^verbatim>\<open>server_recv_cb\<close>, for the target side \<open>r\<close> whose buffer holds the
  decrypted bytes: chunk verification if the connection authenticates, then the
  \<^verbatim>\<open>send\<close>.
\<close>

definition server_recv_relay ::
  "'c crypto_lib \<Rightarrow> enc_globals \<Rightarrow> send_result \<Rightarrow> 'c server_t \<Rightarrow> remote_t \<Rightarrow> 'c server_t" where
  "server_recv_relay L g sres s r =
     (let (ok, b1, ch1) =
            (if auth s then ss_check_hash L g (remote_buf r) (chunk s) (d_ctx s) BUF_SIZE
             else (1, remote_buf r, chunk s))
      in if auth s \<and> ok = 0 then close_and_free (s\<lparr>chunk := ch1\<rparr>)
         else server_recv_send sres (s\<lparr>chunk := ch1\<rparr>) r b1)"

text \<open>
  What \<^verbatim>\<open>server_recv_cb\<close> does with the buffer \<open>b\<close> that \<^verbatim>\<open>ss_decrypt\<close> returned: relay
  it in stage 5, parse the header in stage 0; any other stage is a \<^verbatim>\<open>FATAL\<close> error.
  Dereferencing a \<^verbatim>\<open>NULL\<close> target ends the process.
\<close>

definition server_recv_decrypted ::
  "'c crypto_lib \<Rightarrow> config \<Rightarrow> enc_globals \<Rightarrow> send_result \<Rightarrow> connect_result
     \<Rightarrow> 'c server_t \<Rightarrow> buffer \<Rightarrow> ('c server_t \<times> enc_globals) run" where
  "server_recv_decrypted L cfg g sres cres s b =
     (if stage s = 5 then
        (case remote s of
           None \<Rightarrow> Exits ''NULL remote''
         | Some r \<Rightarrow> Returns (server_recv_relay L g sres s (r\<lparr>remote_buf := b\<rparr>), g))
      else if stage s = 0 then
        (let s1 = handshake_auth L cfg g (s\<lparr>buf := b\<rparr>)
         in if freed s1 then Returns (s1, g)
            else Returns (handshake_connect L cfg g cres s1, g))
      else Exits ''server context error'')"

text \<open>
  \<^verbatim>\<open>server_recv_cb\<close>.  In stage 0 the bytes are appended to the connection's own buffer,
  otherwise they replace the content of the target side's buffer.  A \<^verbatim>\<open>recv\<close> of no bytes
  is the peer's close.  Where \<^verbatim>\<open>ss_decrypt\<close> fails it has already called \<^verbatim>\<open>bfree\<close> on
  that buffer, and the connection is closed with the buffer in that state.
\<close>

definition server_recv_cb ::
  "'c crypto_lib \<Rightarrow> config \<Rightarrow> enc_globals \<Rightarrow> recv_result \<Rightarrow> send_result \<Rightarrow> connect_result
     \<Rightarrow> 'c server_t \<Rightarrow> ('c server_t \<times> enc_globals) run" where
  "server_recv_cb L cfg g rres sres cres s =
     (case (if stage s \<noteq> 0 then map_option remote_buf (remote s) else Some (buf s)) of
        None \<Rightarrow> Exits ''NULL remote''
      | Some b0 \<Rightarrow>
          (let len0 = (if stage s \<noteq> 0 then 0 else len (buf s))
           in case rres of
                RecvClosed \<Rightarrow> Returns (close_and_free s, g)
              | RecvAgain \<Rightarrow> Returns (s, g)
              | RecvError \<Rightarrow> Returns (close_and_free s, g)
              | RecvData d \<Rightarrow>
                  (let d' = take (size_sub BUF_SIZE len0) d;
                       n = length d'
                   in if n = 0 then Returns (close_and_free s, g)
                      else
                        (let b1 = b0\<lparr>array := memcpy_at (array b0) len0 d' n\<rparr>;
                             b2 = (if stage s = 0 then b1\<lparr>len := len b1 + n\<rparr> else b1\<lparr>len := n\<rparr>)
                         in if stage s = 0 \<and> len b2 \<le> enc_iv_len g then Returns (s\<lparr>buf := b2\<rparr>, g)
                            else
                              (case ss_decrypt L g b2 (d_ctx s) BUF_SIZE of
                                 Exits msg \<Rightarrow> Exits msg
                               | Returns (err, b3, dctx, g1) \<Rightarrow>
                                   if err \<noteq> 0 then
                                     Returns (close_and_free
                                       (if stage s \<noteq> 0 then
                                          s\<lparr>d_ctx := dctx,
                                            remote := map_option (\<lambda>r. r\<lparr>remote_buf := b3\<rparr>)
                                                        (remote s)\<rparr>
                                        else s\<lparr>d_ctx := dctx, buf := b3\<rparr>), g1)
                                   else server_recv_decrypted L cfg g1 sres cres
                                          (s\<lparr>d_ctx := dctx\<rparr>) b3)))))"

definition server_send_cb :: "send_result \<Rightarrow> 'c server_t \<Rightarrow> 'c server_t" where
  "server_send_cb sres s =
     (case remote s of
        None \<Rightarrow> close_and_free_server s
      | Some r \<Rightarrow>
          if len (buf s) = 0 then close_and_free s
          else
            (case sres of
               SendAgain \<Rightarrow> s
             | SendError \<Rightarrow> close_and_free s
             | Sent n0 \<Rightarrow>
                 (let n = min n0 (len (buf s))
                  in if n < len (buf s) then
                       s\<lparr>buf := (buf s)\<lparr>len := len (buf s) - n, idx := idx (buf s) + n\<rparr>\<rparr>
                     else
                       s\<lparr>buf := (buf s)\<lparr>len := 0, idx := 0\<rparr>, send_io := False,
                         remote := Some (r\<lparr>remote_recv_io := True\<rparr>)\<rparr>)))"

definition server_timeout_cb :: "'c server_t \<Rightarrow> 'c server_t" where
  "server_timeout_cb s = close_and_free s"

text \<open>\<^verbatim>\<open>server_resolve_cb\<close>; \<open>resolved\<close> tells whether the address is not \<^verbatim>\<open>NULL\<close>.\<close>

definition server_resolve_cb :: "config \<Rightarrow> bool \<Rightarrow> connect_result \<Rightarrow> 'c server_t \<Rightarrow> 'c server_t" where
  "server_resolve_cb cfg resolved cres s =
     (let s0 = s\<lparr>query := False\<rparr>
      in if \<not> resolved then close_and_free_server s0
         else
           (case connect_to_remote cfg cres s0 of
              (None, s1) \<Rightarrow> close_and_free_server s1
            | (Some r, s1) \<Rightarrow>
                (let (r1, s2) = hand_over (idx (buf s1)) r s1
                 in s2\<lparr>remote := Some (r1\<lparr>remote_send_io := True\<rparr>)\<rparr>)))"

text \<open>
  The \<^verbatim>\<open>send\<close> to the client at the end of \<^verbatim>\<open>remote_recv_cb\<close>, with the bytes of buffer
  \<open>b\<close> offered: the mirror image of the one in \<^verbatim>\<open>server_recv_cb\<close>.
\<close>

definition remote_recv_send :: "send_result \<Rightarrow> 'c server_t \<Rightarrow> remote_t \<Rightarrow> buffer \<Rightarrow> 'c server_t" where
  "remote_recv_send sres s r b =
     (case sres of
        SendAgain \<Rightarrow>
          s\<lparr>buf := b\<lparr>idx := 0\<rparr>, send_io := True, remote := Some (r\<lparr>remote_recv_io := False\<rparr>)\<rparr>
      | SendError \<Rightarrow> close_and_free s
      | Sent n0 \<Rightarrow>
          (let n = min n0 (len b)
           in if n < len b then
                s\<lparr>buf := b\<lparr>len := len b - n, idx := n\<rparr>, send_io := True,
                  remote := Some (r\<lparr>remote_recv_io := False\<rparr>)\<rparr>
              else s\<lparr>buf := b\<rparr>))"

text \<open>
  \<^verbatim>\<open>remote_recv_cb\<close>.  The callbacks of the target side run for an existing target; where
  the client side is gone (\<^verbatim>\<open>server == NULL\<close>) they only free the target.
\<close>

definition remote_recv_cb ::
  "'c crypto_lib \<Rightarrow> enc_globals \<Rightarrow> recv_result \<Rightarrow> send_result \<Rightarrow> 'c server_t \<Rightarrow> 'c server_t run" where
  "remote_recv_cb L g rres sres s =
     (case remote s of
        None \<Rightarrow> Returns s
      | Some r \<Rightarrow>
          if freed s then Returns (close_and_free_remote s)
          else
            (case rres of
               RecvClosed \<Rightarrow> Returns (close_and_free s)
             | RecvAgain \<Rightarrow> Returns s
             | RecvError \<Rightarrow> Returns (close_and_free s)
             | RecvData d \<Rightarrow>
                 (let d' = take BUF_SIZE d;
                      n = length d'
                  in if n = 0 then Returns (close_and_free s)
                     else
                       (let b1 = (buf s)\<lparr>array := memcpy_at (array (buf s)) 0 d' n, len := n\<rparr>
                        in case ss_encrypt L g b1 (e_ctx s) BUF_SIZE of
                             Exits msg \<Rightarrow> Exits msg
                           | Returns (err, b2, ectx) \<Rightarrow>
                               if err \<noteq> 0 then Returns (close_and_free (s\<lparr>e_ctx := ectx\<rparr>))
                               else Returns (remote_recv_send sres (s\<lparr>e_ctx := ectx\<rparr>) r b2)))))"

text \<open>\<^verbatim>\<open>remote_send_cb\<close>; \<open>peer_ok\<close> tells whether \<^verbatim>\<open>getpeername\<close> returned 0.\<close>

definition remote_send_cb :: "bool \<Rightarrow> send_result \<Rightarrow> 'c server_t \<Rightarrow> 'c server_t" where
  "remote_send_cb peer_ok sres s =
     (case remote s of
        None \<Rightarrow> s
      | Some r \<Rightarrow>
          if freed s then close_and_free_remote s
          else if \<not> connected r \<and> \<not> peer_ok then close_and_free s
          else if \<not> connected r \<and> len (remote_buf r) = 0 then
            s\<lparr>stage := 5, recv_io := True,
              remote := Some (r\<lparr>connected := True, remote_send_io := False, remote_recv_io := True\<rparr>)\<rparr>
          else
            (let r1 = r\<lparr>connected := True\<rparr>
             in if len (remote_buf r1) = 0 then close_and_free s
                else
                  (case sres of
                     SendAgain \<Rightarrow> s\<lparr>remote := Some r1\<rparr>
                   | SendError \<Rightarrow> close_and_free s
                   | Sent n0 \<Rightarrow>
                       (let n = min n0 (len (remote_buf r1))
                        in if n < len (remote_buf r1) then
                             s\<lparr>remote := Some (r1\<lparr>remote_buf := (remote_buf r1)
                                   \<lparr>len := len (remote_buf r1) - n, idx := idx (remote_buf r1) + n\<rparr>\<rparr>)\<rparr>
                           else
                             s\<lparr>recv_io := True,
                               stage := (if stage s = 4 then 5 else stage s),
                               remote := Some (r1\<lparr>remote_buf := (remote_buf r1)\<lparr>len := 0, idx := 0\<rparr>,
                                                remote_send_io := False,
                                                remote_recv_io :=
                                                  (if stage s = 4 then True else remote_recv_io r1)\<rparr>)\<rparr>))))"

section \<open>The event loop\<close>

text \<open>
  libev calls the callback of a watcher only while the watcher is started; the idle timer
  runs until the connection is freed, and the resolver calls back while a query is
  pending.  An event carries what the system calls of its callback return.
\<close>

datatype event =
    ServerReadable recv_result send_result connect_result
  | ServerWritable send_result
  | RemoteReadable recv_result send_result
  | RemoteWritable bool send_result
  | TimerExpired
  | Resolved bool connect_result

definition remote_reading :: "'c server_t \<Rightarrow> bool" where
  "remote_reading s = (case remote s of None \<Rightarrow> False | Some r \<Rightarrow> remote_recv_io r)"

definition remote_writing :: "'c server_t \<Rightarrow> bool" where
  "remote_writing s = (case remote s of None \<Rightarrow> False | Some r \<Rightarrow> remote_send_io r)"

definition step ::
  "'c crypto_lib \<Rightarrow> config \<Rightarrow> event \<Rightarrow> 'c server_t \<times> enc_globals \<Rightarrow> ('c server_t \<times> enc_globals) run" where
  "step L cfg ev st =
     (case st of (s, g) \<Rightarrow>
        (case ev of
           ServerReadable rres sres cres \<Rightarrow>
             if recv_io s then server_recv_cb L cfg g rres sres cres s else Returns (s, g)
         | ServerWritable sres \<Rightarrow>
             if send_io s then Returns (server_send_cb sres s, g) else Returns (s, g)
         | RemoteReadable rres sres \<Rightarrow>
             if remote_reading s then
               (case remote_recv_cb L g rres sres s of
                  Exits msg \<Rightarrow> Exits msg
                | Returns s' \<Rightarrow> Returns (s', g))
             else Returns (s, g)
         | RemoteWritable peer_ok sres \<Rightarrow>
             if remote_writing s then Returns (remote_send_cb peer_ok sres s, g) else Returns (s, g)
         | TimerExpired \<Rightarrow>
             if \<not> freed s then Returns (server_timeout_cb s, g) else Returns (s, g)
         | Resolved resolved cres \<Rightarrow>
             if query s then Returns (server_resolve_cb cfg resolved cres s, g) else Returns (s, g)))"

fun run_events ::
  "'c crypto_lib \<Rightarrow> config \<Rightarrow> event list \<Rightarrow> 'c server_t \<times> enc_globals \<Rightarrow> ('c server_t \<times> enc_globals) run" where
  "run_events L cfg [] st = Returns st"
| "run_events L cfg (ev # evs) st =
     (case step L cfg ev st of
        Exits msg \<Rightarrow> Exits msg
      | Returns st' \<Rightarrow> run_events L cfg evs st')"

text \<open>
  The bytes a send callback offers to \<^verbatim>\<open>send\<close>: \<^verbatim>\<open>len\<close> bytes from \<^verbatim>\<open>array + idx\<close>.
\<close>

definition unsent :: "buffer \<Rightarrow> byte list" where
  "unsent b = take (len b) (drop (idx b) (array b))"

section \<open>Backpressure\<close>

text \<open>
  The backpressure property of the relay: the read watcher of a socket is not started
  while the write watcher of its peer, which drains what was read, is started.
  \<open>relay_inv\<close> adds what makes it inductive: a pending query means stage 4 with the
  client's read watcher stopped and no target yet; a freed connection has no watcher
  started; the client's write watcher needs a target; a target exists in stage 4 or 5
  only, in stage 4 the relay towards the client has not begun and the client-side buffer
  is empty, and a target that is not yet connected has a buffer that was never partly
  sent.
\<close>

definition backpressure :: "'c server_t \<Rightarrow> bool" where
  "backpressure s = (\<not> (recv_io s \<and> remote_writing s) \<and> \<not> (remote_reading s \<and> send_io s))"

definition relay_inv :: "'c server_t \<Rightarrow> bool" where
  "relay_inv s =
     (backpressure s
      \<and> (query s \<longrightarrow> \<not> recv_io s \<and> remote s = None \<and> stage s = 4)
      \<and> (freed s \<longrightarrow> \<not> recv_io s \<and> \<not> send_io s \<and> \<not> query s)
      \<and> (case remote s of
            None \<Rightarrow> \<not> send_io s
          | Some r \<Rightarrow>
              (stage s = 4 \<or> stage s = 5)
              \<and> (stage s = 4 \<longrightarrow> \<not> send_io s \<and> \<not> remote_recv_io r \<and> len (buf s) = 0)
              \<and> (\<not> connected r \<longrightarrow> stage s = 4 \<and> idx (remote_buf r) = 0)))"

text \<open>
  A \<^verbatim>\<open>send\<close> that leaves bytes of buffer \<open>b\<close> pending: it returned \<^verbatim>\<open>EAGAIN\<close>, or accepted
  fewer bytes than the buffer holds.
\<close>

definition send_stalled :: "send_result \<Rightarrow> buffer \<Rightarrow> bool" where
  "send_stalled sres b = (case sres of SendAgain \<Rightarrow> True | SendError \<Rightarrow> False | Sent n \<Rightarrow> n < len b)"

text \<open>
  Between two states no read watcher was started: each one that is started after was
  started before.
\<close>

definition starts_no_reader :: "'c server_t \<Rightarrow> 'c server_t \<Rightarrow> bool" where
  "starts_no_reader s s' = ((recv_io s' \<longrightarrow> recv_io s) \<and> (remote_reading s' \<longrightarrow> remote_reading s))"

text \<open>
  Between two states a read watcher was started only over a drained buffer: if the
  client's read watcher was started, the target-side buffer has \<open>len\<close> and \<open>idx\<close> 0; if the
  target's read watcher was started, the client-side buffer has \<open>len\<close> 0, and \<open>idx\<close> 0 as
  well when this is a restart during the relay (stage 5) rather than the first start at
  the end of stage 4.
\<close>

definition restart_drained :: "'c server_t \<Rightarrow> 'c server_t \<Rightarrow> bool" where
  "restart_drained s s' =
     ((\<not> recv_io s \<and> recv_io s' \<longrightarrow>
         (case remote s' of
            None \<Rightarrow> False
          | Some r' \<Rightarrow> len (remote_buf r') = 0 \<and> idx (remote_buf r') = 0))
      \<and> (\<not> remote_reading s \<and> remote_reading s' \<longrightarrow>
           len (buf s') = 0 \<and> (stage s = 5 \<longrightarrow> idx (buf s') = 0)))"

section \<open>Verification\<close>

declare safe_memcmp_loop.simps [simp del]
declare merge_sort.simps [simp del]
declare table_rounds.simps [simp del]
declare find_cipher.simps [simp del]

subsection \<open>The cipher catalog\<close>

text \<open>
  Claim C9.  Read together, position by position, the catalog of method names, the table of
  key sizes and the table of IV sizes are the specification's cipher-sizes table: every
  method has the key length and IV length the specification lists, and the catalog has
  \<open>CIPHER_NUM\<close> entries.
\<close>

theorem cipher_size_catalog:
  "zip supported_ciphers (zip supported_ciphers_key_size supported_ciphers_iv_size)
     = spec_cipher_sizes
   \<and> length supported_ciphers = CIPHER_NUM
   \<and> length supported_ciphers_key_size = CIPHER_NUM
   \<and> length supported_ciphers_iv_size = CIPHER_NUM"
  by (simp add: supported_ciphers_def supported_ciphers_key_size_def
      supported_ciphers_iv_size_def spec_cipher_sizes_def CIPHER_NUM_def)

subsection \<open>Constant-time comparison\<close>









subsection \<open>Start-up with an unknown method name\<close>

lemma find_cipher_unknown:
  "name \<notin> set supported_ciphers \<Longrightarrow> m \<le> CIPHER_NUM \<Longrightarrow> find_cipher name m = CIPHER_NUM"
proof (induction name m rule: find_cipher.induct)
  case (1 name m)
  show ?case
  proof (cases "m < CIPHER_NUM")
    case True
    then have "supported_ciphers ! m \<in> set supported_ciphers"
      by (intro nth_mem) (simp add: supported_ciphers_def CIPHER_NUM_def)
    with "1.prems" have ne: "name \<noteq> supported_ciphers ! m" by auto
    with True "1.IH" "1.prems" show ?thesis
      by (subst find_cipher.simps) simp
  next
    case False
    with "1.prems" show ?thesis by (subst find_cipher.simps) simp
  qed
qed

lemma merge_length: "length (merge ll rr salt key) = length ll + length rr"
  by (induction ll rr salt key rule: merge.induct) auto

lemma merge_set: "set (merge ll rr salt key) = set ll \<union> set rr"
  by (induction ll rr salt key rule: merge.induct) auto

lemma merge_sort_Some:
  "length arr < 512 \<Longrightarrow>
     \<exists>r. merge_sort arr salt key = Some r \<and> length r = length arr \<and> set r = set arr"
proof (induction arr salt key rule: merge_sort.induct)
  case (1 arr salt key)
  show ?case
  proof (cases "length arr \<le> 1")
    case True
    then show ?thesis by (subst merge_sort.simps) simp
  next
    case False
    define m where "m = (length arr div 2) mod 256"
    have m_eq: "m = length arr div 2" using "1.prems" by (simp add: m_def)
    have m_pos: "m \<noteq> 0" using False m_eq by simp
    have m_le: "m \<le> length arr" using m_eq by simp
    have nz: "length arr div 2 mod 256 \<noteq> 0" using m_pos by (simp add: m_def)
    have len1: "length (take (length arr - length arr div 2 mod 256) arr) < 512"
      using "1.prems" by simp
    have len2: "length (drop (length arr - length arr div 2 mod 256) arr) < 512"
      using "1.prems" by simp
    obtain l where l: "merge_sort (take (length arr - m) arr) salt key = Some l"
         "length l = length arr - m" "set l = set (take (length arr - m) arr)"
      using "1.IH"(1) [OF False nz len1] m_le unfolding m_def [symmetric] by auto
    obtain r where r: "merge_sort (drop (length arr - m) arr) salt key = Some r"
         "length r = m" "set r = set (drop (length arr - m) arr)"
      using "1.IH"(2) [OF False nz l(1) [unfolded m_def] len2] m_le unfolding m_def [symmetric] by auto
    have "set (take (length arr - m) arr) \<union> set (drop (length arr - m) arr) = set arr"
      by (metis append_take_drop_id set_append)
    then show ?thesis
      using False m_pos l r m_le unfolding m_def
      by (subst merge_sort.simps) (simp add: merge_length merge_set)
  qed
qed

lemma table_rounds_Some:
  "length tbl < 512 \<Longrightarrow>
     \<exists>r. table_rounds i tbl key = Some r \<and> length r = length tbl \<and> set r = set tbl"
proof (induction i tbl key rule: table_rounds.induct)
  case (1 i tbl key)
  show ?case
  proof (cases "i < 1024")
    case True
    obtain t where t: "merge_sort tbl (of_nat i) key = Some t" "length t = length tbl" "set t = set tbl"
      using merge_sort_Some [OF "1.prems"] by blast
    from "1.IH" [OF True t(1)] "1.prems" t True show ?thesis
      by (subst table_rounds.simps) simp
  next
    case False
    then show ?thesis by (subst table_rounds.simps) simp
  qed
qed

lemma enc_table_init_Some:
  "\<exists>tbl. enc_table_init L pass g = Some (g\<lparr>enc_table := tbl, dec_table := gen_dec_table tbl\<rparr>)
      \<and> length tbl = 256 \<and> set tbl = set (map of_nat [0..<256])"
proof -
  have "length (map of_nat [0..<256] :: byte list) < 512" by simp
  from table_rounds_Some [OF this, of 1 "table_key (lib_MD5 L (pass_bytes pass))"]
  show ?thesis by (auto simp: enc_table_init_def)
qed

lemma enc_init_unknown:
  assumes "name \<notin> set supported_ciphers"
  shows "\<exists>tbl. enc_init L pass (Some name) g =
       Some (Returns (TABLE,
         (LOGE (invalid_cipher_name name) g)
           \<lparr>enc_table := tbl, dec_table := gen_dec_table tbl\<rparr>))
       \<and> length tbl = 256"
proof -
  have f: "find_cipher name TABLE = CIPHER_NUM"
    using assms by (rule find_cipher_unknown) (simp add: TABLE_def)
  obtain tbl where "enc_table_init L pass (LOGE (invalid_cipher_name name) g)
      = Some ((LOGE (invalid_cipher_name name) g)
           \<lparr>enc_table := tbl, dec_table := gen_dec_table tbl\<rparr>)" "length tbl = 256"
    using enc_table_init_Some by blast
  then show ?thesis
    by (intro exI [of _ tbl]) (simp add: enc_init_def f)
qed

text \<open>
  Claim C4, as the code has it.  For a method name that is in no entry of the catalog,
  \<open>enc_init\<close> does not end the process: it logs "Invalid cipher name: ..., use table
  instead", initialises the table cipher from the password and returns \<open>TABLE\<close>, so the
  process goes on to serve with the table cipher.  The key, the method number and the
  replay cache stay as they were.
\<close>

theorem enc_init_unknown_method_uses_table:
  assumes "name \<notin> set supported_ciphers"
  shows "\<not> startup_aborts (enc_init L pass (Some name) g)
     \<and> (\<exists>g'. enc_init L pass (Some name) g = Some (Returns (TABLE, g'))
          \<and> log_lines g' = log_lines g @ [invalid_cipher_name name]
          \<and> length (enc_table g') = 256
          \<and> dec_table g' = gen_dec_table (enc_table g')
          \<and> enc_key g' = enc_key g \<and> enc_method g' = enc_method g
          \<and> iv_cache g' = iv_cache g)"
proof -
  obtain tbl where t: "enc_init L pass (Some name) g =
       Some (Returns (TABLE,
         (LOGE (invalid_cipher_name name) g)
           \<lparr>enc_table := tbl, dec_table := gen_dec_table tbl\<rparr>))" "length tbl = 256"
    using enc_init_unknown [OF assms] by blast
  show ?thesis
    unfolding t(1) using t(2) by (simp add: startup_aborts_def LOGE_def)
qed

theorem enc_init_unknown_method_uses_table_witness:
  "''foo'' \<notin> set supported_ciphers
   \<and> \<not> startup_aborts (enc_init stub_lib ''secret'' (Some ''foo'') globals0)
   \<and> (\<exists>g'. enc_init stub_lib ''secret'' (Some ''foo'') globals0 = Some (Returns (TABLE, g'))
          \<and> log_lines g' = [''Invalid cipher name: foo, use table instead''])"
proof -
  have h: "''foo'' \<notin> set supported_ciphers"
    by (simp add: supported_ciphers_def)
  from enc_init_unknown_method_uses_table [OF h, of stub_lib "''secret''" globals0]
  show ?thesis using h by (auto simp: globals0_def invalid_cipher_name_def)
qed

text \<open>
  The claim as stated fails: with the method name "foo", which is not in the catalog,
  start-up does not abort.
\<close>

theorem enc_init_unknown_method_counterexample:
  "''foo'' \<notin> set supported_ciphers
   \<and> \<not> startup_aborts (enc_init stub_lib ''secret'' (Some ''foo'') globals0)"
proof -
  have h: "''foo'' \<notin> set supported_ciphers"
    by (simp add: supported_ciphers_def)
  obtain tbl where "enc_init stub_lib ''secret'' (Some ''foo'') globals0 =
       Some (Returns (TABLE,
         (LOGE (invalid_cipher_name ''foo'') globals0)
           \<lparr>enc_table := tbl, dec_table := gen_dec_table tbl\<rparr>))"
    using enc_init_unknown [OF h] by blast
  then show ?thesis using h by (simp add: startup_aborts_def)
qed

subsection \<open>Waiting for the IV in stage 0\<close>

text \<open>
  Claim C8.  In stage 0, when \<open>recv\<close> delivers bytes \<open>d\<close> (at least one, and no more than
  the room it was given) and the buffer then holds at most \<open>enc_iv_len\<close> bytes,
  \<open>server_recv_cb\<close> returns with nothing changed but the buffer: the stage is still 0, the
  connection is not freed, the read watcher stays as it was, the decrypt context and the
  replay cache are untouched (\<open>ss_decrypt\<close> has not run), and the buffer holds the bytes
  it held before followed by \<open>d\<close>.
\<close>

theorem stage0_incomplete_iv_waits:
  assumes "stage s = 0" and "d \<noteq> []"
    and "len (buf s) + length d \<le> BUF_SIZE"
    and "len (buf s) + length d \<le> enc_iv_len g"
    and "len (buf s) \<le> length (array (buf s))"
  shows "server_recv_cb L cfg g (RecvData d) sres cres s =
           Returns (s\<lparr>buf := (buf s)\<lparr>array := memcpy_at (array (buf s)) (len (buf s)) d (length d),
                                     len := len (buf s) + length d\<rparr>\<rparr>, g)
       \<and> take (len (buf s) + length d) (memcpy_at (array (buf s)) (len (buf s)) d (length d))
            = take (len (buf s)) (array (buf s)) @ d"
proof -
  have room: "size_sub BUF_SIZE (len (buf s)) = BUF_SIZE - len (buf s)"
    using assms(3) by (simp add: size_sub_def)
  have d': "take (BUF_SIZE - len (buf s)) d = d"
    using assms(3) by simp
  have n: "length d \<noteq> 0" using assms(2) by simp
  have lt: "\<not> BUF_SIZE \<le> len (buf s)" using assms(3) n by linarith
  have 1: "server_recv_cb L cfg g (RecvData d) sres cres s =
           Returns (s\<lparr>buf := (buf s)\<lparr>array := memcpy_at (array (buf s)) (len (buf s)) d (length d),
                                     len := len (buf s) + length d\<rparr>\<rparr>, g)"
    using assms(1,4) n lt by (simp add: server_recv_cb_def room d' Let_def)
  have 2: "take (len (buf s) + length d) (memcpy_at (array (buf s)) (len (buf s)) d (length d))
            = take (len (buf s)) (array (buf s)) @ d"
    using assms(5) by (simp add: memcpy_at_def)
  from 1 2 show ?thesis by simp
qed

theorem stage0_incomplete_iv_waits_witness:
  "\<exists>s'. server_recv_cb stub_lib
          \<lparr>cfg_auth = False, cfg_fast_open = False, cork_ip_init = (\<lambda>h. True)\<rparr>
          (globals0\<lparr>enc_iv_len := 16\<rparr>) (RecvData [1, 2, 3]) SendAgain Connecting
          \<lparr>stage = 0, auth = False, buf = balloc BUF_SIZE, chunk = chunk0,
            e_ctx = None, d_ctx = None, recv_io = True, send_io = False, query = False,
            remote = None, freed = False, heap_fault = False\<rparr>
        = Returns (s', globals0\<lparr>enc_iv_len := 16\<rparr>)
      \<and> stage s' = 0 \<and> \<not> freed s' \<and> recv_io s' \<and> d_ctx s' = None
      \<and> len (buf s') = 3 \<and> take (len (buf s')) (array (buf s')) = [1, 2, 3]"
proof -
  let ?s = "\<lparr>stage = 0, auth = False, buf = balloc BUF_SIZE, chunk = chunk0,
        e_ctx = None, d_ctx = (None :: byte enc_ctx option), recv_io = True, send_io = False,
        query = False, remote = None, freed = False, heap_fault = False\<rparr>"
  let ?g = "globals0\<lparr>enc_iv_len := 16\<rparr>"
  let ?cfg = "\<lparr>cfg_auth = False, cfg_fast_open = False, cork_ip_init = (\<lambda>h. True)\<rparr>"
  have h1: "stage ?s = 0" by simp
  have h2: "[1, 2, 3 :: byte] \<noteq> []" by simp
  have h3: "len (buf ?s) + length [1, 2, 3 :: byte] \<le> BUF_SIZE"
    by (simp add: balloc_def BUF_SIZE_def)
  have h4: "len (buf ?s) + length [1, 2, 3 :: byte] \<le> enc_iv_len ?g"
    by (simp add: balloc_def)
  have h5: "len (buf ?s) \<le> length (array (buf ?s))"
    by (simp add: balloc_def)
  note T = stage0_incomplete_iv_waits [OF h1 h2 h3 h4 h5, of stub_lib ?cfg SendAgain Connecting]
  have l0: "len (buf ?s) = 0" by (simp add: balloc_def)
  have t: "take (len (buf ?s) + length [1, 2, 3 :: byte])
      (memcpy_at (array (buf ?s)) (len (buf ?s)) [1, 2, 3] (length [1, 2, 3 :: byte])) = [1, 2, 3]"
    using T l0 by simp
  show ?thesis
    apply (rule exI)
    apply (rule conjI)
     apply (rule T [THEN conjunct1])
    using t l0 apply simp
    done
qed

subsection \<open>Partial writes\<close>

lemma unsent_after_partial:
  "take (m - n) (drop (i + n) a) = drop n (take m (drop i a))"
  by (simp add: drop_take add.commute)

lemma server_send_cb_partial:
  assumes "remote s = Some r" and "n < len (buf s)"
  shows "server_send_cb (Sent n) s =
           s\<lparr>buf := (buf s)\<lparr>len := len (buf s) - n, idx := idx (buf s) + n\<rparr>\<rparr>"
  using assms by (simp add: server_send_cb_def Let_def)

lemma server_send_cb_full:
  assumes "remote s = Some r" and "0 < len (buf s)" and "len (buf s) \<le> n"
  shows "server_send_cb (Sent n) s =
           s\<lparr>buf := (buf s)\<lparr>len := 0, idx := 0\<rparr>, send_io := False,
             remote := Some (r\<lparr>remote_recv_io := True\<rparr>)\<rparr>"
  using assms by (simp add: server_send_cb_def Let_def)

lemma server_send_cb_again:
  assumes "remote s = Some r" and "0 < len (buf s)"
  shows "server_send_cb SendAgain s = s"
  using assms by (simp add: server_send_cb_def Let_def)

text \<open>
  \<^verbatim>\<open>remote_send_cb\<close> reaches its \<^verbatim>\<open>send\<close> when the connection is live, the buffer is not
  empty and the target is connected or \<^verbatim>\<open>getpeername\<close> has just succeeded; the first
  write after \<^verbatim>\<open>connect\<close> marks the target connected.
\<close>

lemma remote_send_cb_partial:
  assumes "remote s = Some r" and "\<not> freed s" and "connected r \<or> ok"
    and "n < len (remote_buf r)"
  shows "remote_send_cb ok (Sent n) s =
           s\<lparr>remote := Some (r\<lparr>connected := True,
                 remote_buf := (remote_buf r)
                   \<lparr>len := len (remote_buf r) - n, idx := idx (remote_buf r) + n\<rparr>\<rparr>)\<rparr>"
  using assms by (auto simp: remote_send_cb_def Let_def)

lemma remote_send_cb_full:
  assumes "remote s = Some r" and "\<not> freed s" and "connected r \<or> ok"
    and "0 < len (remote_buf r)" and "len (remote_buf r) \<le> n"
  shows "remote_send_cb ok (Sent n) s =
           s\<lparr>recv_io := True, stage := (if stage s = 4 then 5 else stage s),
             remote := Some (r\<lparr>connected := True,
                              remote_buf := (remote_buf r)\<lparr>len := 0, idx := 0\<rparr>,
                              remote_send_io := False,
                              remote_recv_io := (if stage s = 4 then True else remote_recv_io r)\<rparr>)\<rparr>"
  using assms by (auto simp: remote_send_cb_def Let_def)

lemma remote_send_cb_again:
  assumes "remote s = Some r" and "\<not> freed s" and "connected r \<or> ok"
    and "0 < len (remote_buf r)"
  shows "remote_send_cb ok SendAgain s = s\<lparr>remote := Some (r\<lparr>connected := True\<rparr>)\<rparr>"
  using assms by (auto simp: remote_send_cb_def Let_def)

text \<open>
  Repeated write events drain the buffer: once the sizes that \<open>send\<close> accepts add up to
  the length of the pending data, the buffer is empty with \<open>idx\<close> and \<open>len\<close> 0 and the
  write watcher is stopped.
\<close>

lemma server_writes_drain:
  assumes "remote s = Some r" and "send_io s" and "0 < len (buf s)"
    and "len (buf s) \<le> sum_list ns"
  shows "\<exists>s'. run_events L cfg (map (\<lambda>n. ServerWritable (Sent n)) ns) (s, g) = Returns (s', g)
       \<and> len (buf s') = 0 \<and> idx (buf s') = 0 \<and> \<not> send_io s' \<and> array (buf s') = array (buf s)"
  using assms
proof (induction ns arbitrary: s)
  case Nil
  then show ?case by simp
next
  case (Cons n ns)
  show ?case
  proof (cases "n < len (buf s)")
    case True
    let ?s1 = "s\<lparr>buf := (buf s)\<lparr>len := len (buf s) - n, idx := idx (buf s) + n\<rparr>\<rparr>"
    have st: "step L cfg (ServerWritable (Sent n)) (s, g) = Returns (?s1, g)"
      using Cons.prems True by (simp add: step_def server_send_cb_partial)
    have "\<exists>s'. run_events L cfg (map (\<lambda>n. ServerWritable (Sent n)) ns) (?s1, g) = Returns (s', g)
       \<and> len (buf s') = 0 \<and> idx (buf s') = 0 \<and> \<not> send_io s' \<and> array (buf s') = array (buf ?s1)"
      using Cons.prems True by (intro Cons.IH) auto
    then show ?thesis using st by auto
  next
    case False
    let ?s1 = "s\<lparr>buf := (buf s)\<lparr>len := 0, idx := 0\<rparr>, send_io := False,
             remote := Some (r\<lparr>remote_recv_io := True\<rparr>)\<rparr>"
    have st: "step L cfg (ServerWritable (Sent n)) (s, g) = Returns (?s1, g)"
      using Cons.prems False by (simp add: step_def server_send_cb_full)
    have idle: "run_events L cfg (map (\<lambda>n. ServerWritable (Sent n)) ms) (?s1, g) = Returns (?s1, g)" for ms
      by (induction ms) (simp_all add: step_def)
    show ?thesis using st idle [of ns] by auto
  qed
qed

lemma remote_writes_drain:
  assumes "remote s = Some r" and "\<not> freed s" and "connected r \<or> ok" and "remote_send_io r"
    and "0 < len (remote_buf r)" and "len (remote_buf r) \<le> sum_list ns"
  shows "\<exists>s' r'. run_events L cfg (map (\<lambda>n. RemoteWritable ok (Sent n)) ns) (s, g) = Returns (s', g)
       \<and> remote s' = Some r' \<and> len (remote_buf r') = 0 \<and> idx (remote_buf r') = 0
       \<and> \<not> remote_send_io r' \<and> array (remote_buf r') = array (remote_buf r)"
  using assms
proof (induction ns arbitrary: s r)
  case Nil
  then show ?case by simp
next
  case (Cons n ns)
  have w: "remote_writing s" using Cons.prems by (simp add: remote_writing_def)
  show ?case
  proof (cases "n < len (remote_buf r)")
    case True
    let ?r1 = "r\<lparr>connected := True, remote_buf := (remote_buf r)
                 \<lparr>len := len (remote_buf r) - n, idx := idx (remote_buf r) + n\<rparr>\<rparr>"
    let ?s1 = "s\<lparr>remote := Some ?r1\<rparr>"
    have st: "step L cfg (RemoteWritable ok (Sent n)) (s, g) = Returns (?s1, g)"
      using Cons.prems(1,2,3) True w by (simp add: step_def remote_send_cb_partial)
    have "\<exists>s' r'. run_events L cfg (map (\<lambda>n. RemoteWritable ok (Sent n)) ns) (?s1, g) = Returns (s', g)
       \<and> remote s' = Some r' \<and> len (remote_buf r') = 0 \<and> idx (remote_buf r') = 0
       \<and> \<not> remote_send_io r' \<and> array (remote_buf r') = array (remote_buf ?r1)"
      using Cons.prems True by (intro Cons.IH) auto
    then show ?thesis using st by auto
  next
    case False
    let ?r1 = "r\<lparr>connected := True, remote_buf := (remote_buf r)\<lparr>len := 0, idx := 0\<rparr>,
                              remote_send_io := False,
                              remote_recv_io := (if stage s = 4 then True else remote_recv_io r)\<rparr>"
    let ?s1 = "s\<lparr>recv_io := True, stage := (if stage s = 4 then 5 else stage s),
             remote := Some ?r1\<rparr>"
    have st: "step L cfg (RemoteWritable ok (Sent n)) (s, g) = Returns (?s1, g)"
      using Cons.prems(1,2,3,5) False w by (simp add: step_def remote_send_cb_full)
    have idle: "run_events L cfg (map (\<lambda>n. RemoteWritable ok (Sent n)) ms) (?s1, g) = Returns (?s1, g)" for ms
      by (induction ms) (simp_all add: step_def remote_writing_def)
    show ?thesis using st idle [of ns] by auto
  qed
qed

text \<open>
  Claim C7.  \<open>server_send_cb\<close> calls \<open>send\<close> when the target exists and the buffer towards
  the client is not empty; \<open>remote_send_cb\<close> when the connection is live, the buffer towards
  the target is not empty and the target is connected or \<open>getpeername\<close> succeeds (the first
  write of stage 4).  Nothing is asked of the other buffer, of the stage or of the
  watchers.  If \<open>send\<close> accepts \<open>n\<close> bytes, fewer than \<open>len\<close>, the buffer changes by exactly
  \<open>idx += n\<close> and \<open>len -= n\<close> (and the target is marked connected), so the array is as it was
  and the bytes offered to the next \<open>send\<close> are the unsent tail of the bytes offered to this
  one; on \<open>EAGAIN\<close> the buffer is as it was; if \<open>send\<close> accepts all of them, \<open>idx\<close> and
  \<open>len\<close> are both 0.  Repeated write events drain the buffer once the accepted sizes add up
  to the pending length.
\<close>

theorem partial_write_discipline:
  "(remote s = Some r \<and> 0 < len (buf s) \<longrightarrow>
      (n < len (buf s) \<longrightarrow>
         server_send_cb (Sent n) s =
           s\<lparr>buf := (buf s)\<lparr>len := len (buf s) - n, idx := idx (buf s) + n\<rparr>\<rparr>
         \<and> unsent (buf (server_send_cb (Sent n) s)) = drop n (unsent (buf s)))
      \<and> (len (buf s) \<le> n \<longrightarrow>
         server_send_cb (Sent n) s =
           s\<lparr>buf := (buf s)\<lparr>len := 0, idx := 0\<rparr>, send_io := False,
             remote := Some (r\<lparr>remote_recv_io := True\<rparr>)\<rparr>)
      \<and> server_send_cb SendAgain s = s
      \<and> (send_io s \<and> len (buf s) \<le> sum_list ns \<longrightarrow>
            (\<exists>s'. run_events L cfg (map (\<lambda>n. ServerWritable (Sent n)) ns) (s, g) = Returns (s', g)
               \<and> len (buf s') = 0 \<and> idx (buf s') = 0 \<and> \<not> send_io s')))
   \<and> (remote s = Some r \<and> \<not> freed s \<and> (connected r \<or> ok) \<and> 0 < len (remote_buf r) \<longrightarrow>
      (n < len (remote_buf r) \<longrightarrow>
         remote_send_cb ok (Sent n) s =
           s\<lparr>remote := Some (r\<lparr>connected := True,
                 remote_buf := (remote_buf r)
                   \<lparr>len := len (remote_buf r) - n, idx := idx (remote_buf r) + n\<rparr>\<rparr>)\<rparr>
         \<and> map_option (unsent \<circ> remote_buf) (remote (remote_send_cb ok (Sent n) s))
             = Some (drop n (unsent (remote_buf r))))
      \<and> (len (remote_buf r) \<le> n \<longrightarrow>
         remote_send_cb ok (Sent n) s =
           s\<lparr>recv_io := True, stage := (if stage s = 4 then 5 else stage s),
             remote := Some (r\<lparr>connected := True,
                              remote_buf := (remote_buf r)\<lparr>len := 0, idx := 0\<rparr>,
                              remote_send_io := False,
                              remote_recv_io := (if stage s = 4 then True else remote_recv_io r)\<rparr>)\<rparr>)
      \<and> remote_send_cb ok SendAgain s = s\<lparr>remote := Some (r\<lparr>connected := True\<rparr>)\<rparr>
      \<and> (remote_send_io r \<and> len (remote_buf r) \<le> sum_list ns \<longrightarrow>
            (\<exists>s' r'. run_events L cfg (map (\<lambda>n. RemoteWritable ok (Sent n)) ns) (s, g) = Returns (s', g)
               \<and> remote s' = Some r' \<and> len (remote_buf r') = 0 \<and> idx (remote_buf r') = 0
               \<and> \<not> remote_send_io r')))"
proof -
  have A: "server_send_cb (Sent n) s =
           s\<lparr>buf := (buf s)\<lparr>len := len (buf s) - n, idx := idx (buf s) + n\<rparr>\<rparr>
         \<and> unsent (buf (server_send_cb (Sent n) s)) = drop n (unsent (buf s))"
    if "remote s = Some r" and "n < len (buf s)"
  proof -
    have e: "server_send_cb (Sent n) s =
           s\<lparr>buf := (buf s)\<lparr>len := len (buf s) - n, idx := idx (buf s) + n\<rparr>\<rparr>"
      using that by (rule server_send_cb_partial)
    then have "unsent (buf (server_send_cb (Sent n) s)) = drop n (unsent (buf s))"
      by (simp add: unsent_def unsent_after_partial)
    with e show ?thesis by (rule conjI)
  qed
  have B: "\<exists>s'. run_events L cfg (map (\<lambda>n. ServerWritable (Sent n)) ns) (s, g) = Returns (s', g)
               \<and> len (buf s') = 0 \<and> idx (buf s') = 0 \<and> \<not> send_io s'"
    if "remote s = Some r" and "0 < len (buf s)" and "send_io s \<and> len (buf s) \<le> sum_list ns"
    using server_writes_drain [OF that(1) _ that(2), of ns L cfg g] that(3) by blast
  have C: "remote_send_cb ok (Sent n) s =
           s\<lparr>remote := Some (r\<lparr>connected := True,
                 remote_buf := (remote_buf r)
                   \<lparr>len := len (remote_buf r) - n, idx := idx (remote_buf r) + n\<rparr>\<rparr>)\<rparr>
         \<and> map_option (unsent \<circ> remote_buf) (remote (remote_send_cb ok (Sent n) s))
             = Some (drop n (unsent (remote_buf r)))"
    if "remote s = Some r" and "\<not> freed s" and "connected r \<or> ok" and "n < len (remote_buf r)"
  proof -
    have e: "remote_send_cb ok (Sent n) s =
           s\<lparr>remote := Some (r\<lparr>connected := True,
                 remote_buf := (remote_buf r)
                   \<lparr>len := len (remote_buf r) - n, idx := idx (remote_buf r) + n\<rparr>\<rparr>)\<rparr>"
      using that by (rule remote_send_cb_partial)
    have "map_option (unsent \<circ> remote_buf) (remote (remote_send_cb ok (Sent n) s))
             = Some (drop n (unsent (remote_buf r)))"
      unfolding e by (simp add: unsent_def unsent_after_partial)
    with e show ?thesis by (rule conjI)
  qed
  have D: "\<exists>s' r'. run_events L cfg (map (\<lambda>n. RemoteWritable ok (Sent n)) ns) (s, g) = Returns (s', g)
               \<and> remote s' = Some r' \<and> len (remote_buf r') = 0 \<and> idx (remote_buf r') = 0
               \<and> \<not> remote_send_io r'"
    if "remote s = Some r" and "\<not> freed s" and "connected r \<or> ok" and "0 < len (remote_buf r)"
      and "remote_send_io r \<and> len (remote_buf r) \<le> sum_list ns"
    using remote_writes_drain [OF that(1,2,3) _ that(4), of ns L cfg g] that(5) by blast
  show ?thesis
    using A B C D server_send_cb_full [of s r n] server_send_cb_again [of s r]
      remote_send_cb_full [of s r ok n] remote_send_cb_again [of s r ok]
    by blast
qed

theorem partial_write_discipline_witness:
  "unsent (buf (server_send_cb (Sent 1)
      \<lparr>stage = 5, auth = False,
        buf = \<lparr>idx = 1, len = 3, capacity = 4, array = [1, 2, 3, 4], array_ptr = Allocated\<rparr>,
        chunk = chunk0, e_ctx = None, d_ctx = (None :: byte enc_ctx option), recv_io = True,
        send_io = True, query = False,
        remote = Some \<lparr>remote_buf = \<lparr>idx = 0, len = 0, capacity = 2, array = [5, 6],
                                       array_ptr = Allocated\<rparr>,
          remote_recv_io = False, remote_send_io = False, connected = True\<rparr>,
        freed = False, heap_fault = False\<rparr>)) = [3, 4]
   \<and> (\<exists>s'. run_events stub_lib \<lparr>cfg_auth = False, cfg_fast_open = False, cork_ip_init = (\<lambda>h. True)\<rparr>
          (map (\<lambda>n. ServerWritable (Sent n)) [1, 2])
          (\<lparr>stage = 5, auth = False,
             buf = \<lparr>idx = 1, len = 3, capacity = 4, array = [1, 2, 3, 4], array_ptr = Allocated\<rparr>,
             chunk = chunk0, e_ctx = None, d_ctx = None, recv_io = True, send_io = True,
             query = False,
             remote = Some \<lparr>remote_buf = \<lparr>idx = 0, len = 0, capacity = 2, array = [5, 6],
                                            array_ptr = Allocated\<rparr>,
               remote_recv_io = False, remote_send_io = False, connected = True\<rparr>,
             freed = False, heap_fault = False\<rparr>, globals0) = Returns (s', globals0)
        \<and> len (buf s') = 0 \<and> idx (buf s') = 0 \<and> \<not> send_io s')
   \<and> map_option (unsent \<circ> remote_buf) (remote (remote_send_cb True (Sent 1)
      \<lparr>stage = 4, auth = False,
        buf = \<lparr>idx = 0, len = 0, capacity = 4, array = [1, 2, 3, 4], array_ptr = Allocated\<rparr>,
        chunk = chunk0, e_ctx = None, d_ctx = (None :: byte enc_ctx option), recv_io = False,
        send_io = False, query = False,
        remote = Some \<lparr>remote_buf = \<lparr>idx = 0, len = 2, capacity = 2, array = [5, 6],
                                       array_ptr = Allocated\<rparr>,
          remote_recv_io = False, remote_send_io = True, connected = False\<rparr>,
        freed = False, heap_fault = False\<rparr>)) = Some [6]
   \<and> (\<exists>s' r'. run_events stub_lib \<lparr>cfg_auth = False, cfg_fast_open = False, cork_ip_init = (\<lambda>h. True)\<rparr>
          (map (\<lambda>n. RemoteWritable True (Sent n)) [1, 1])
          (\<lparr>stage = 4, auth = False,
             buf = \<lparr>idx = 0, len = 0, capacity = 4, array = [1, 2, 3, 4], array_ptr = Allocated\<rparr>,
             chunk = chunk0, e_ctx = None, d_ctx = None, recv_io = False, send_io = False,
             query = False,
             remote = Some \<lparr>remote_buf = \<lparr>idx = 0, len = 2, capacity = 2, array = [5, 6],
                                            array_ptr = Allocated\<rparr>,
               remote_recv_io = False, remote_send_io = True, connected = False\<rparr>,
             freed = False, heap_fault = False\<rparr>, globals0) = Returns (s', globals0)
        \<and> remote s' = Some r' \<and> len (remote_buf r') = 0 \<and> idx (remote_buf r') = 0
        \<and> \<not> remote_send_io r')"
proof -
  let ?cfg = "\<lparr>cfg_auth = False, cfg_fast_open = False, cork_ip_init = (\<lambda>h. True)\<rparr>"
  let ?r1 = "\<lparr>remote_buf = \<lparr>idx = 0, len = 0, capacity = 2, array = [5, 6 :: byte],
                              array_ptr = Allocated\<rparr>,
          remote_recv_io = False, remote_send_io = False, connected = True\<rparr>"
  let ?s1 = "\<lparr>stage = 5, auth = False,
        buf = \<lparr>idx = 1, len = 3, capacity = 4, array = [1, 2, 3, 4 :: byte], array_ptr = Allocated\<rparr>,
        chunk = chunk0, e_ctx = None, d_ctx = (None :: byte enc_ctx option), recv_io = True,
        send_io = True, query = False, remote = Some ?r1, freed = False, heap_fault = False\<rparr>"
  let ?r2 = "\<lparr>remote_buf = \<lparr>idx = 0, len = 2, capacity = 2, array = [5, 6 :: byte],
                              array_ptr = Allocated\<rparr>,
          remote_recv_io = False, remote_send_io = True, connected = False\<rparr>"
  let ?s2 = "\<lparr>stage = 4, auth = False,
        buf = \<lparr>idx = 0, len = 0, capacity = 4, array = [1, 2, 3, 4 :: byte], array_ptr = Allocated\<rparr>,
        chunk = chunk0, e_ctx = None, d_ctx = (None :: byte enc_ctx option), recv_io = False,
        send_io = False, query = False, remote = Some ?r2, freed = False, heap_fault = False\<rparr>"
  note T1 = partial_write_discipline [where s = ?s1 and r = ?r1 and n = 1 and ns = "[1, 2]"
      and L = stub_lib and cfg = ?cfg and g = globals0]
  note T2 = partial_write_discipline [where s = ?s2 and r = ?r2 and n = 1 and ns = "[1, 1]"
      and L = stub_lib and cfg = ?cfg and g = globals0 and ok = True]
  have h1: "remote ?s1 = Some ?r1 \<and> 0 < len (buf ?s1)" by simp
  have c1: "1 < len (buf ?s1)" by simp
  have d1: "send_io ?s1 \<and> len (buf ?s1) \<le> sum_list [1, 2]" by simp
  have h2: "remote ?s2 = Some ?r2 \<and> \<not> freed ?s2 \<and> (connected ?r2 \<or> True)
      \<and> 0 < len (remote_buf ?r2)" by simp
  have c2: "1 < len (remote_buf ?r2)" by simp
  have d2: "remote_send_io ?r2 \<and> len (remote_buf ?r2) \<le> sum_list [1, 1]" by simp
  have a1: "unsent (buf (server_send_cb (Sent 1) ?s1)) = drop 1 (unsent (buf ?s1))"
    using T1 h1 c1 by blast
  have b1: "drop 1 (unsent (buf ?s1)) = [3, 4]"
    by (simp add: unsent_def)
  have p1: "unsent (buf (server_send_cb (Sent 1) ?s1)) = [3, 4]"
    using a1 b1 by (rule trans)
  have p2: "\<exists>s'. run_events stub_lib ?cfg (map (\<lambda>n. ServerWritable (Sent n)) [1, 2]) (?s1, globals0)
        = Returns (s', globals0) \<and> len (buf s') = 0 \<and> idx (buf s') = 0 \<and> \<not> send_io s'"
    using T1 h1 d1 by blast
  have a3: "map_option (unsent \<circ> remote_buf) (remote (remote_send_cb True (Sent 1) ?s2))
             = Some (drop 1 (unsent (remote_buf ?r2)))"
    using T2 h2 c2 by blast
  have b3: "Some (drop 1 (unsent (remote_buf ?r2))) = Some [6]"
    by (simp add: unsent_def)
  have p3: "map_option (unsent \<circ> remote_buf) (remote (remote_send_cb True (Sent 1) ?s2)) = Some [6]"
    using a3 b3 by (rule trans)
  have p4: "\<exists>s' r'. run_events stub_lib ?cfg (map (\<lambda>n. RemoteWritable True (Sent n)) [1, 1])
          (?s2, globals0) = Returns (s', globals0)
        \<and> remote s' = Some r' \<and> len (remote_buf r') = 0 \<and> idx (remote_buf r') = 0
        \<and> \<not> remote_send_io r'"
    using T2 h2 d2 by blast
  show ?thesis
    apply (intro conjI)
       apply (rule p1)
      apply (rule p2)
     apply (rule p3)
    apply (rule p4)
    done
qed

subsection \<open>Backpressure\<close>

lemma relay_inv_data [simp]:
  "relay_inv (s\<lparr>chunk := c\<rparr>) = relay_inv s"
  "relay_inv (s\<lparr>e_ctx := e\<rparr>) = relay_inv s"
  "relay_inv (s\<lparr>d_ctx := e\<rparr>) = relay_inv s"
  "relay_inv (s\<lparr>auth := a\<rparr>) = relay_inv s"
  by (simp_all add: relay_inv_def backpressure_def remote_writing_def remote_reading_def
      cong: option.case_cong)

lemma relay_inv_close_and_free [simp]: "relay_inv (close_and_free s)"
  by (simp add: relay_inv_def backpressure_def close_and_free_def close_and_free_server_def
      close_and_free_remote_def remote_writing_def remote_reading_def split: option.splits)






lemma relay_inv_close_and_free_remote:
  "freed s \<Longrightarrow> relay_inv s \<Longrightarrow> relay_inv (close_and_free_remote s)"
  by (simp add: relay_inv_def backpressure_def close_and_free_remote_def
      remote_writing_def remote_reading_def split: option.splits)

















lemma starts_no_reader_refl [simp]: "starts_no_reader s s"
  by (simp add: starts_no_reader_def)



lemma starts_no_reader_close_and_free_remote [simp]:
  "starts_no_reader s (close_and_free_remote s)"
  by (simp add: starts_no_reader_def close_and_free_remote_def remote_reading_def
      split: option.splits)

lemma starts_no_reader_data [simp]:
  "starts_no_reader s (t\<lparr>chunk := c\<rparr>) = starts_no_reader s t"
  "starts_no_reader s (t\<lparr>e_ctx := e\<rparr>) = starts_no_reader s t"
  "starts_no_reader s (t\<lparr>d_ctx := e\<rparr>) = starts_no_reader s t"
  "starts_no_reader s (t\<lparr>auth := a\<rparr>) = starts_no_reader s t"
  "starts_no_reader s (t\<lparr>buf := b\<rparr>) = starts_no_reader s t"
  by (simp_all add: starts_no_reader_def remote_reading_def)














lemma restart_drained_refl [simp]: "restart_drained s s"
  by (simp add: restart_drained_def)


lemma stalled_server_recv_send:
  "send_stalled sres b \<Longrightarrow>
     \<not> recv_io (server_recv_send sres s r b) \<and> remote_writing (server_recv_send sres s r b)
     \<and> map_option remote_buf (remote (server_recv_send sres s r b))
          = Some (case sres of Sent n \<Rightarrow> b\<lparr>len := len b - n, idx := n\<rparr> | _ \<Rightarrow> b\<lparr>idx := 0\<rparr>)"
  by (cases sres)
     (auto simp: send_stalled_def server_recv_send_def remote_writing_def Let_def min_def)

lemma stalled_remote_recv_send:
  "send_stalled sres b \<Longrightarrow>
     \<not> remote_reading (remote_recv_send sres s r b) \<and> send_io (remote_recv_send sres s r b)
     \<and> buf (remote_recv_send sres s r b)
          = (case sres of Sent n \<Rightarrow> b\<lparr>len := len b - n, idx := n\<rparr> | _ \<Rightarrow> b\<lparr>idx := 0\<rparr>)"
  by (cases sres)
     (auto simp: send_stalled_def remote_recv_send_def remote_reading_def Let_def min_def)




lemma server_recv_relay_refused:
  assumes "auth s"
    and "ss_check_hash L g (remote_buf r) (chunk s) (d_ctx s) BUF_SIZE = (0, b1, ch1)"
  shows "server_recv_relay L g sres s r = close_and_free (s\<lparr>chunk := ch1\<rparr>)"
  using assms unfolding server_recv_relay_def by (simp add: Let_def)












subsection \<open>Authentication implied by the header\<close>

lemma auth_close [simp]:
  "auth (close_and_free s) = auth s"
  "auth (close_and_free_server s) = auth s"
  "auth (close_and_free_remote s) = auth s"
  by (simp_all add: close_and_free_def close_and_free_server_def close_and_free_remote_def
      split: option.splits)

lemma auth_server_recv_send [simp]: "auth (server_recv_send sres s r b) = auth s"
  by (cases sres) (simp_all add: server_recv_send_def Let_def)

lemma auth_remote_recv_send [simp]: "auth (remote_recv_send sres s r b) = auth s"
  by (cases sres) (simp_all add: remote_recv_send_def Let_def)

lemma auth_server_recv_relay [simp]: "auth (server_recv_relay L g sres s r) = auth s"
  by (simp add: server_recv_relay_def Let_def split: prod.splits)

lemma auth_connect_to_remote: "connect_to_remote cfg cres s = (ro, s1) \<Longrightarrow> auth s1 = auth s"
  by (auto simp: connect_to_remote_def split: connect_result.splits if_splits)

lemma auth_hand_over: "hand_over off r s = (r1, s1) \<Longrightarrow> auth s1 = auth s"
  by (auto simp: hand_over_def split: if_splits)

lemma auth_handshake_target [simp]: "auth (handshake_target cfg cres nq s) = auth s"
  by (auto simp: handshake_target_def Let_def split: prod.splits option.splits
      dest: auth_connect_to_remote auth_hand_over)

lemma auth_handshake_connect [simp]: "auth (handshake_connect L cfg g cres s) = auth s"
  by (simp add: handshake_connect_def Let_def split: option.splits prod.splits)


lemma auth_server_send_cb [simp]: "auth (server_send_cb sres s) = auth s"
  by (cases sres) (simp_all add: server_send_cb_def Let_def split: option.splits)

lemma auth_remote_send_cb [simp]: "auth (remote_send_cb ok sres s) = auth s"
  by (cases sres) (simp_all add: remote_send_cb_def Let_def split: option.splits)

lemma auth_server_resolve_cb [simp]: "auth (server_resolve_cb cfg resolved cres s) = auth s"
  by (auto simp: server_resolve_cb_def Let_def split: prod.splits option.splits
      dest!: auth_connect_to_remote auth_hand_over)












subsection \<open>Replay rejection\<close>

lemma cache_insert_entries:
  assumes "length (entries c) \<le> max_entries c"
  shows "entries (cache_insert c k) =
           drop (length (entries c @ [k]) - max_entries c) (entries c @ [k])"
    and "max_entries (cache_insert c k) = max_entries c"
    and "length (entries (cache_insert c k)) \<le> max_entries c"
proof -
  show "entries (cache_insert c k) =
           drop (length (entries c @ [k]) - max_entries c) (entries c @ [k])"
  proof (cases "max_entries c < length (entries c @ [k])")
    case True
    then have a1: "length (entries c @ [k]) - max_entries c = Suc 0" using assms by simp
    have "entries (cache_insert c k) = tl (entries c @ [k])"
      using True by (simp add: cache_insert_def Let_def del: tl_append2)
    also have "\<dots> = drop (Suc 0) (entries c @ [k])"
      by (simp only: drop_Suc drop_0)
    finally show ?thesis unfolding a1 .
  next
    case False
    then show ?thesis by (simp add: cache_insert_def Let_def)
  qed
  show "max_entries (cache_insert c k) = max_entries c"
    by (simp add: cache_insert_def Let_def)
  show "length (entries (cache_insert c k)) \<le> max_entries c"
    using assms by (simp add: cache_insert_def Let_def)
qed

lemma drop_window:
  fixes xs ks :: "'a list"
  shows "drop (length (drop (length xs - m) xs @ ks) - m) (drop (length xs - m) xs @ ks)
       = drop (length (xs @ ks) - m) (xs @ ks)"
proof (cases "m < length xs")
  case True
  define a where "a = length xs - m"
  have a: "a \<le> length xs" "length xs - a = m" using True by (simp_all add: a_def)
  have 1: "drop a xs @ ks = drop a (xs @ ks)" using a(1) by simp
  have 2: "length (drop a xs @ ks) - m = length ks" using a(2) by simp
  have 3: "length (xs @ ks) - m = length ks + a" using True by (simp add: a_def)
  have "drop (length (drop a xs @ ks) - m) (drop a xs @ ks) = drop (length ks) (drop a (xs @ ks))"
    by (subst 2) (simp only: 1)
  also have "\<dots> = drop (length ks + a) (xs @ ks)" by (rule drop_drop)
  finally show ?thesis unfolding a_def [symmetric] 3 .
next
  case False
  then have "length xs - m = 0" by simp
  then show ?thesis by simp
qed

lemma cache_inserts_entries:
  assumes "length (entries c) \<le> max_entries c"
  shows "entries (fold (\<lambda>k c. cache_insert c k) ks c) =
           drop (length (entries c @ ks) - max_entries c) (entries c @ ks)
       \<and> max_entries (fold (\<lambda>k c. cache_insert c k) ks c) = max_entries c"
  using assms
proof (induction ks arbitrary: c)
  case Nil
  then show ?case by simp
next
  case (Cons k ks)
  let ?c1 = "cache_insert c k"
  let ?xs = "entries c @ [k]"
  note ci = cache_insert_entries [OF Cons.prems, of k]
  have ih: "entries (fold (\<lambda>k c. cache_insert c k) ks ?c1) =
        drop (length (entries ?c1 @ ks) - max_entries ?c1) (entries ?c1 @ ks)
      \<and> max_entries (fold (\<lambda>k c. cache_insert c k) ks ?c1) = max_entries ?c1"
    using ci by (intro Cons.IH) simp
  have "drop (length (entries ?c1 @ ks) - max_entries c) (entries ?c1 @ ks)
      = drop (length (?xs @ ks) - max_entries c) (?xs @ ks)"
    unfolding ci(1) by (rule drop_window)
  also have "?xs @ ks = entries c @ k # ks" by simp
  finally show ?case using ih ci(2) by simp
qed

lemma cache_keeps_recent:
  assumes "length (entries c) \<le> max_entries c" and "length ks < max_entries c"
  shows "cache_key_exist (fold (\<lambda>k c. cache_insert c k) ks (cache_insert c iv)) iv"
proof -
  have "fold (\<lambda>k c. cache_insert c k) ks (cache_insert c iv)
      = fold (\<lambda>k c. cache_insert c k) (iv # ks) c" by simp
  then have e: "entries (fold (\<lambda>k c. cache_insert c k) ks (cache_insert c iv)) =
      drop (length (entries c @ iv # ks) - max_entries c) (entries c @ iv # ks)"
    using cache_inserts_entries [OF assms(1), of "iv # ks"] by simp
  have "length (entries c @ iv # ks) - max_entries c \<le> length (entries c)"
    using assms(2) by simp
  then have "drop (length (entries c @ iv # ks) - max_entries c) (entries c @ iv # ks)
      = drop (length (entries c @ iv # ks) - max_entries c) (entries c) @ iv # ks"
    by simp
  then show ?thesis unfolding cache_key_exist_def e by simp
qed


lemma cipher_context_set_iv_stores:
  "cipher_context_set_iv L g c iv ivl False = Returns e \<Longrightarrow>
     cipher_iv e = memcpy_at (cipher_iv c) 0 iv ivl"
  by (auto simp: cipher_context_set_iv_def Let_def split: if_splits option.splits prod.splits)

lemma cipher_context_set_iv_cache [simp]:
  "cipher_context_set_iv L (g\<lparr>iv_cache := c\<rparr>) x iv ivl enc = cipher_context_set_iv L g x iv ivl enc"
  unfolding cipher_context_set_iv_def by simp

lemma ss_decrypt_first_replayed:
  assumes "\<not> init ctx" and "RC4_MD5 \<le> enc_method g"
    and "cipher_context_set_iv L g (evp ctx) (take (enc_iv_len g) (array cipher)) (enc_iv_len g) False
           = Returns e"
    and "cache_key_exist (iv_cache g) (take (enc_iv_len g) (array cipher))"
  shows "ss_decrypt L g cipher (Some ctx) cap =
           Returns (- 1, bfree cipher, Some (ctx\<lparr>evp := e, counter := 0, init := True\<rparr>), g)"
  using assms by (simp add: ss_decrypt_def Let_def)

lemma ss_decrypt_first_admitted:
  assumes "\<not> init ctx" and "RC4_MD5 \<le> enc_method g"
    and "cipher_context_set_iv L g (evp ctx) (take (enc_iv_len g) (array cipher)) (enc_iv_len g) False
           = Returns e"
    and "\<not> cache_key_exist (iv_cache g) (take (enc_iv_len g) (array cipher))"
  shows "\<exists>ret b c. ss_decrypt L g cipher (Some ctx) cap =
           Returns (ret, b, Some c,
             g\<lparr>iv_cache := cache_insert (iv_cache g) (take (enc_iv_len g) (array cipher))\<rparr>)"
  using assms by (simp add: ss_decrypt_def Let_def split: prod.splits)

lemma enc_key_init_cache:
  assumes "enc_key_init L m pass g0 = Returns g1" and "TABLE < m" and "m < CIPHER_NUM"
  shows "iv_cache g1 = cache_create 256"
  using assms
  by (auto simp: enc_key_init_def get_cipher_type_def Let_def
      split: if_splits option.splits prod.splits)

lemma server_recv_cb_decrypt_failed:
  assumes "stage s = 0" and "d \<noteq> []" and "len (buf s) + length d \<le> BUF_SIZE"
    and "enc_iv_len g < len (buf s) + length d"
    and "ss_decrypt L g
           ((buf s)\<lparr>array := memcpy_at (array (buf s)) (len (buf s)) d (length d),
                    len := len (buf s) + length d\<rparr>) (d_ctx s) BUF_SIZE
         = Returns (err, b, dctx, g1)"
    and "err \<noteq> 0"
  shows "server_recv_cb L cfg g (RecvData d) sres cres s =
           Returns (close_and_free (s\<lparr>d_ctx := dctx, buf := b\<rparr>), g1)"
proof -
  have room: "size_sub BUF_SIZE (len (buf s)) = BUF_SIZE - len (buf s)"
    using assms(3) by (simp add: size_sub_def)
  have d': "take (BUF_SIZE - len (buf s)) d = d"
    using assms(3) by simp
  have n: "length d \<noteq> 0" using assms(2) by simp
  have lt: "\<not> BUF_SIZE \<le> len (buf s)" using assms(3) n by linarith
  show ?thesis
    using assms(1,4,5,6) n lt by (simp add: server_recv_cb_def room d' Let_def)
qed


lemma double_free_after_bfree:
  assumes "array_ptr c = Allocated"
  shows "heap_fault (close_and_free (s\<lparr>d_ctx := x, buf := bfree c\<rparr>))"
  using assms
  by (simp add: close_and_free_def close_and_free_server_def close_and_free_remote_def
      bfree_def free_block_def split: option.splits)

text \<open>
  Claim C1.  Take a method other than table and rc4 (\<open>enc_method \<ge> RC4_MD5\<close>; with the table
  method there is no context at all) and a fresh decrypt context.  The first \<open>ss_decrypt\<close>
  reads the leading \<open>enc_iv_len\<close> bytes as the IV and stores them in the context.  If the IV
  is in the replay cache, the call returns -1 with the globals, hence the cache, exactly as
  they were, and it has freed the array of the buffer it was given.  \<open>server_recv_cb\<close> then
  closes the connection, and \<open>free_server\<close> frees that array a second time: the close the
  claim speaks of is a double free.  If the IV is absent, the call returns with the IV
  inserted.  The cache is created by \<open>enc_key_init\<close> with room for 256 entries; an
  insertion never exceeds the capacity and, when over it, drops the oldest entry.  Once
  admitted, the IV stays in the cache for any fewer than capacity later insertions, and a
  first decrypt of another fresh context with the same leading bytes is then rejected.
\<close>

theorem replay_rejection:
  assumes "\<not> init ctx" and "RC4_MD5 \<le> enc_method g"
    and "cipher_context_set_iv L g (evp ctx) (take (enc_iv_len g) (array cipher)) (enc_iv_len g) False
           = Returns e"
    and "length (entries (iv_cache g)) \<le> max_entries (iv_cache g)"
  shows "(cache_key_exist (iv_cache g) (take (enc_iv_len g) (array cipher)) \<longrightarrow>
            ss_decrypt L g cipher (Some ctx) cap =
              Returns (- 1, bfree cipher, Some (ctx\<lparr>evp := e, counter := 0, init := True\<rparr>), g)
          \<and> (stage s = 0 \<and> d \<noteq> [] \<and> len (buf s) + length d \<le> BUF_SIZE
               \<and> enc_iv_len g < len (buf s) + length d \<and> d_ctx s = Some ctx
               \<and> cipher = (buf s)\<lparr>array := memcpy_at (array (buf s)) (len (buf s)) d (length d),
                                   len := len (buf s) + length d\<rparr> \<longrightarrow>
             server_recv_cb L cfg g (RecvData d) sres cres s =
               Returns (close_and_free
                 (s\<lparr>d_ctx := Some (ctx\<lparr>evp := e, counter := 0, init := True\<rparr>),
                    buf := bfree cipher\<rparr>), g)
             \<and> freed (close_and_free
                 (s\<lparr>d_ctx := Some (ctx\<lparr>evp := e, counter := 0, init := True\<rparr>),
                    buf := bfree cipher\<rparr>))
             \<and> (array_ptr (buf s) = Allocated \<longrightarrow>
                  heap_fault (close_and_free
                    (s\<lparr>d_ctx := Some (ctx\<lparr>evp := e, counter := 0, init := True\<rparr>),
                       buf := bfree cipher\<rparr>)))))
       \<and> (\<not> cache_key_exist (iv_cache g) (take (enc_iv_len g) (array cipher)) \<longrightarrow>
            (\<exists>ret b c. ss_decrypt L g cipher (Some ctx) cap =
               Returns (ret, b, Some c,
                 g\<lparr>iv_cache := cache_insert (iv_cache g) (take (enc_iv_len g) (array cipher))\<rparr>)))
       \<and> cipher_iv e = memcpy_at (cipher_iv (evp ctx)) 0 (take (enc_iv_len g) (array cipher))
                          (enc_iv_len g)
       \<and> (enc_key_init L m pass g0 = Returns g1 \<and> TABLE < m \<and> m < CIPHER_NUM \<longrightarrow>
            max_entries (iv_cache g1) = 256 \<and> entries (iv_cache g1) = [])
       \<and> max_entries (cache_insert (iv_cache g) k) = max_entries (iv_cache g)
       \<and> length (entries (cache_insert (iv_cache g) k)) \<le> max_entries (iv_cache g)
       \<and> entries (cache_insert (iv_cache g) k) =
           drop (length (entries (iv_cache g) @ [k]) - max_entries (iv_cache g))
             (entries (iv_cache g) @ [k])
       \<and> (length ks < max_entries (iv_cache g) \<and> \<not> init ctx'
            \<and> take (enc_iv_len g) (array cipher') = take (enc_iv_len g) (array cipher)
            \<and> cipher_context_set_iv L g (evp ctx') (take (enc_iv_len g) (array cipher))
                 (enc_iv_len g) False = Returns e' \<longrightarrow>
            ss_decrypt L
              (g\<lparr>iv_cache := fold (\<lambda>k c. cache_insert c k) ks
                    (cache_insert (iv_cache g) (take (enc_iv_len g) (array cipher)))\<rparr>)
              cipher' (Some ctx') cap'
            = Returns (- 1, bfree cipher', Some (ctx'\<lparr>evp := e', counter := 0, init := True\<rparr>),
                g\<lparr>iv_cache := fold (\<lambda>k c. cache_insert c k) ks
                    (cache_insert (iv_cache g) (take (enc_iv_len g) (array cipher)))\<rparr>))"
proof -
  let ?iv = "take (enc_iv_len g) (array cipher)"
  let ?ctx1 = "ctx\<lparr>evp := e, counter := 0, init := True\<rparr>"
  have 1: "cache_key_exist (iv_cache g) ?iv \<Longrightarrow>
      ss_decrypt L g cipher (Some ctx) cap = Returns (- 1, bfree cipher, Some ?ctx1, g)"
    by (rule ss_decrypt_first_replayed [OF assms(1,2,3)])
  have 2: "server_recv_cb L cfg g (RecvData d) sres cres s =
               Returns (close_and_free (s\<lparr>d_ctx := Some ?ctx1, buf := bfree cipher\<rparr>), g)
             \<and> freed (close_and_free (s\<lparr>d_ctx := Some ?ctx1, buf := bfree cipher\<rparr>))
             \<and> (array_ptr (buf s) = Allocated \<longrightarrow>
                  heap_fault (close_and_free (s\<lparr>d_ctx := Some ?ctx1, buf := bfree cipher\<rparr>)))"
    if ex: "cache_key_exist (iv_cache g) ?iv"
      and h: "stage s = 0 \<and> d \<noteq> [] \<and> len (buf s) + length d \<le> BUF_SIZE
               \<and> enc_iv_len g < len (buf s) + length d \<and> d_ctx s = Some ctx
               \<and> cipher = (buf s)\<lparr>array := memcpy_at (array (buf s)) (len (buf s)) d (length d),
                                   len := len (buf s) + length d\<rparr>"
  proof -
    have dec: "ss_decrypt L g
           ((buf s)\<lparr>array := memcpy_at (array (buf s)) (len (buf s)) d (length d),
                    len := len (buf s) + length d\<rparr>) (d_ctx s) BUF_SIZE
         = Returns (- 1, bfree cipher, Some ?ctx1, g)"
      using ss_decrypt_first_replayed [OF assms(1,2,3) ex, of BUF_SIZE] h by simp
    have ne: "(- 1 :: int) \<noteq> 0" by simp
    have a: "server_recv_cb L cfg g (RecvData d) sres cres s =
               Returns (close_and_free (s\<lparr>d_ctx := Some ?ctx1, buf := bfree cipher\<rparr>), g)"
      using h by (intro server_recv_cb_decrypt_failed [OF _ _ _ _ dec ne]) simp_all
    have b: "freed (close_and_free (s\<lparr>d_ctx := Some ?ctx1, buf := bfree cipher\<rparr>))"
      by (simp add: close_and_free_def close_and_free_server_def close_and_free_remote_def
          split: option.splits)
    have c: "heap_fault (close_and_free (s\<lparr>d_ctx := Some ?ctx1, buf := bfree cipher\<rparr>))"
      if "array_ptr (buf s) = Allocated"
    proof -
      have "array_ptr cipher = Allocated" using h that by simp
      then show ?thesis by (rule double_free_after_bfree)
    qed
    from a b c show ?thesis by blast
  qed
  have 3: "\<not> cache_key_exist (iv_cache g) ?iv \<Longrightarrow>
      \<exists>ret b c. ss_decrypt L g cipher (Some ctx) cap =
        Returns (ret, b, Some c, g\<lparr>iv_cache := cache_insert (iv_cache g) ?iv\<rparr>)"
    by (rule ss_decrypt_first_admitted [OF assms(1,2,3)])
  have 4: "cipher_iv e = memcpy_at (cipher_iv (evp ctx)) 0 ?iv (enc_iv_len g)"
    by (rule cipher_context_set_iv_stores [OF assms(3)])
  have 5: "max_entries (iv_cache g1) = 256 \<and> entries (iv_cache g1) = []"
    if "enc_key_init L m pass g0 = Returns g1 \<and> TABLE < m \<and> m < CIPHER_NUM"
    using enc_key_init_cache [of L m pass g0 g1] that by (simp add: cache_create_def)
  note 6 = cache_insert_entries [OF assms(4), of k]
  have 7: "ss_decrypt L
              (g\<lparr>iv_cache := fold (\<lambda>k c. cache_insert c k) ks (cache_insert (iv_cache g) ?iv)\<rparr>)
              cipher' (Some ctx') cap'
            = Returns (- 1, bfree cipher', Some (ctx'\<lparr>evp := e', counter := 0, init := True\<rparr>),
                g\<lparr>iv_cache := fold (\<lambda>k c. cache_insert c k) ks (cache_insert (iv_cache g) ?iv)\<rparr>)"
    if h: "length ks < max_entries (iv_cache g) \<and> \<not> init ctx'
            \<and> take (enc_iv_len g) (array cipher') = ?iv
            \<and> cipher_context_set_iv L g (evp ctx') ?iv (enc_iv_len g) False = Returns e'"
  proof -
    let ?g = "g\<lparr>iv_cache := fold (\<lambda>k c. cache_insert c k) ks (cache_insert (iv_cache g) ?iv)\<rparr>"
    have a: "\<not> init ctx'" using h by simp
    have b: "RC4_MD5 \<le> enc_method ?g" using assms(2) by simp
    have s: "cipher_context_set_iv L ?g (evp ctx') (take (enc_iv_len ?g) (array cipher'))
               (enc_iv_len ?g) False = Returns e'"
      using h by simp
    have c: "cache_key_exist (iv_cache ?g) (take (enc_iv_len ?g) (array cipher'))"
      using cache_keeps_recent [OF assms(4), of ks ?iv] h by simp
    show ?thesis by (rule ss_decrypt_first_replayed [OF a b s c])
  qed
  show ?thesis
    using 1 2 3 4 5 6 7 by blast
qed


theorem replay_rejection_witness:
  "(\<exists>s'. server_recv_cb stub_lib
        \<lparr>cfg_auth = False, cfg_fast_open = False, cork_ip_init = (\<lambda>h. True)\<rparr>
        (globals0\<lparr>enc_key_len := 8, enc_iv_len := 8, enc_method := 11,
           iv_cache := \<lparr>max_entries = 256, entries = [[1, 2, 3, 4, 5, 6, 7, 8]]\<rparr>\<rparr>)
        (RecvData [1, 2, 3, 4, 5, 6, 7, 8, 9]) SendAgain Connecting
        \<lparr>stage = 0, auth = False, buf = balloc BUF_SIZE, chunk = chunk0, e_ctx = None,
          d_ctx = Some \<lparr>init = False, counter = 0,
                         evp = \<lparr>cipher_evp = 0, cipher_iv = replicate 16 0\<rparr>\<rparr>,
          recv_io = True, send_io = False, query = False, remote = None, freed = False, heap_fault = False\<rparr>
      = Returns (s', globals0\<lparr>enc_key_len := 8, enc_iv_len := 8, enc_method := 11,
           iv_cache := \<lparr>max_entries = 256, entries = [[1, 2, 3, 4, 5, 6, 7, 8]]\<rparr>\<rparr>)
      \<and> freed s' \<and> heap_fault s')
   \<and> (\<exists>ret b c. ss_decrypt stub_lib
        (globals0\<lparr>enc_key_len := 8, enc_iv_len := 8, enc_method := 11,
           iv_cache := \<lparr>max_entries = 256, entries = []\<rparr>\<rparr>)
        \<lparr>idx = 0, len = 9, capacity = 9, array = [1, 2, 3, 4, 5, 6, 7, 8, 9], array_ptr = Allocated\<rparr>
        (Some \<lparr>init = False, counter = 0,
                evp = \<lparr>cipher_evp = 0, cipher_iv = replicate 16 0\<rparr>\<rparr>) 9
      = Returns (ret, b, Some c,
          globals0\<lparr>enc_key_len := 8, enc_iv_len := 8, enc_method := 11,
            iv_cache := \<lparr>max_entries = 256, entries = [[1, 2, 3, 4, 5, 6, 7, 8]]\<rparr>\<rparr>))
   \<and> (\<exists>c. ss_decrypt stub_lib
        (globals0\<lparr>enc_key_len := 8, enc_iv_len := 8, enc_method := 11,
           iv_cache := \<lparr>max_entries = 256,
                         entries = [[1, 2, 3, 4, 5, 6, 7, 8], [8, 7, 6, 5, 4, 3, 2, 1]]\<rparr>\<rparr>)
        \<lparr>idx = 0, len = 10, capacity = 10, array = [1, 2, 3, 4, 5, 6, 7, 8, 0, 0], array_ptr = Allocated\<rparr>
        (Some \<lparr>init = False, counter = 0,
                evp = \<lparr>cipher_evp = 0, cipher_iv = replicate 16 0\<rparr>\<rparr>) 10
      = Returns (- 1, bfree \<lparr>idx = 0, len = 10, capacity = 10,
                               array = [1, 2, 3, 4, 5, 6, 7, 8, 0, 0], array_ptr = Allocated\<rparr>, Some c,
          globals0\<lparr>enc_key_len := 8, enc_iv_len := 8, enc_method := 11,
            iv_cache := \<lparr>max_entries = 256,
                          entries = [[1, 2, 3, 4, 5, 6, 7, 8], [8, 7, 6, 5, 4, 3, 2, 1]]\<rparr>\<rparr>))"
proof -
  let ?cfg = "\<lparr>cfg_auth = False, cfg_fast_open = False, cork_ip_init = (\<lambda>h. True)\<rparr>"
  let ?iv = "[1, 2, 3, 4, 5, 6, 7, 8 :: byte]"
  let ?k = "[8, 7, 6, 5, 4, 3, 2, 1 :: byte]"
  let ?d = "[1, 2, 3, 4, 5, 6, 7, 8, 9 :: byte]"
  let ?g0 = "globals0\<lparr>enc_key_len := 8, enc_iv_len := 8, enc_method := 11,
           iv_cache := \<lparr>max_entries = 256, entries = []\<rparr>\<rparr>"
  let ?g1 = "globals0\<lparr>enc_key_len := 8, enc_iv_len := 8, enc_method := 11,
           iv_cache := \<lparr>max_entries = 256, entries = [?iv]\<rparr>\<rparr>"
  let ?g2 = "globals0\<lparr>enc_key_len := 8, enc_iv_len := 8, enc_method := 11,
           iv_cache := \<lparr>max_entries = 256, entries = [?iv, ?k]\<rparr>\<rparr>"
  let ?x = "\<lparr>init = False, counter = 0,
              evp = \<lparr>cipher_evp = (0 :: byte), cipher_iv = replicate 16 0\<rparr>\<rparr>"
  let ?s = "\<lparr>stage = 0, auth = False, buf = balloc BUF_SIZE, chunk = chunk0, e_ctx = None,
          d_ctx = Some ?x, recv_io = True, send_io = False, query = False, remote = None,
          freed = False, heap_fault = False\<rparr>"
  let ?c1 = "(buf ?s)\<lparr>array := memcpy_at (array (buf ?s)) (len (buf ?s)) ?d (length ?d),
                      len := len (buf ?s) + length ?d\<rparr>"
  let ?c0 = "\<lparr>idx = 0, len = 9, capacity = 9, array = ?d, array_ptr = Allocated\<rparr>"
  let ?c2 = "\<lparr>idx = 0, len = 10, capacity = 10, array = [1, 2, 3, 4, 5, 6, 7, 8, 0, 0 :: byte], array_ptr = Allocated\<rparr>"
  let ?e = "\<lparr>cipher_evp = (36 :: byte), cipher_iv = ?iv @ [0, 0, 0, 0, 0, 0, 0, 0]\<rparr>"
  have r16: "replicate 16 (0::byte) = [0, 0, 0, 0, 0, 0, 0, 0, 0, 0, 0, 0, 0, 0, 0, 0]"
    by (simp add: numeral_eq_Suc)
  have r8: "replicate 8 (0::byte) = [0, 0, 0, 0, 0, 0, 0, 0]"
    by (simp add: numeral_eq_Suc)
  have iv1: "take (enc_iv_len ?g1) (array ?c1) = ?iv"
    by (simp add: memcpy_at_def balloc_def)
  have iv0: "take (enc_iv_len ?g0) (array ?c0) = ?iv" by simp
  have iv2: "take (enc_iv_len ?g0) (array ?c2) = ?iv" by simp
  have a1: "\<not> init ?x" by simp
  have b1: "RC4_MD5 \<le> enc_method ?g1" and b0: "RC4_MD5 \<le> enc_method ?g0"
    by (simp_all add: RC4_MD5_def)
  have s1: "cipher_context_set_iv stub_lib ?g1 (evp ?x) (take (enc_iv_len ?g1) (array ?c1))
      (enc_iv_len ?g1) False = Returns ?e"
    unfolding iv1
    by (simp add: cipher_context_set_iv_def stub_lib_def globals0_def SALSA20_def RC4_MD5_def
        memcpy_at_def r16 r8)
  have s0: "cipher_context_set_iv stub_lib ?g0 (evp ?x) (take (enc_iv_len ?g0) (array ?c0))
      (enc_iv_len ?g0) False = Returns ?e"
    unfolding iv0
    by (simp add: cipher_context_set_iv_def stub_lib_def globals0_def SALSA20_def RC4_MD5_def
        memcpy_at_def r16 r8)
  have n1: "length (entries (iv_cache ?g1)) \<le> max_entries (iv_cache ?g1)"
    and n0: "length (entries (iv_cache ?g0)) \<le> max_entries (iv_cache ?g0)"
    by simp_all
  note T1 = replay_rejection [OF a1 b1 s1 n1, where s = ?s and d = ?d and cfg = ?cfg
      and sres = SendAgain and cres = Connecting]
  note T0 = replay_rejection [OF a1 b0 s0 n0, where cap = 9 and ks = "[?k]" and ctx' = ?x
      and cipher' = ?c2 and e' = ?e and cap' = 10]
  have ex1: "cache_key_exist (iv_cache ?g1) (take (enc_iv_len ?g1) (array ?c1))"
    unfolding iv1 by (simp add: cache_key_exist_def)
  have hs: "stage ?s = 0 \<and> ?d \<noteq> [] \<and> len (buf ?s) + length ?d \<le> BUF_SIZE
               \<and> enc_iv_len ?g1 < len (buf ?s) + length ?d \<and> d_ctx ?s = Some ?x
               \<and> ?c1 = ?c1"
    by (simp add: balloc_def BUF_SIZE_def)
  let ?s' = "close_and_free
      (?s\<lparr>d_ctx := Some (?x\<lparr>evp := ?e, counter := 0, init := True\<rparr>), buf := bfree ?c1\<rparr>)"
  have al: "array_ptr (buf ?s) = Allocated"
    by (simp add: balloc_def)
  have p1: "server_recv_cb stub_lib ?cfg ?g1 (RecvData ?d) SendAgain Connecting ?s =
      Returns (?s', ?g1)"
    using T1 ex1 hs by blast
  have f1: "freed ?s'"
    using T1 ex1 hs by blast
  have f2: "heap_fault ?s'"
    using T1 ex1 hs al by blast
  have ex0: "\<not> cache_key_exist (iv_cache ?g0) (take (enc_iv_len ?g0) (array ?c0))"
    by (simp add: cache_key_exist_def)
  have p0: "\<exists>ret b c. ss_decrypt stub_lib ?g0 ?c0 (Some ?x) 9 =
      Returns (ret, b, Some c,
        ?g0\<lparr>iv_cache := cache_insert (iv_cache ?g0) (take (enc_iv_len ?g0) (array ?c0))\<rparr>)"
    using T0 ex0 by blast
  have i0: "?g0\<lparr>iv_cache := cache_insert (iv_cache ?g0) (take (enc_iv_len ?g0) (array ?c0))\<rparr> = ?g1"
    unfolding iv0 by (simp add: cache_insert_def)
  have hk: "length [?k] < max_entries (iv_cache ?g0) \<and> \<not> init ?x
            \<and> take (enc_iv_len ?g0) (array ?c2) = take (enc_iv_len ?g0) (array ?c0)
            \<and> cipher_context_set_iv stub_lib ?g0 (evp ?x) (take (enc_iv_len ?g0) (array ?c0))
                 (enc_iv_len ?g0) False = Returns ?e"
    using s0 by simp
  have i2: "?g0\<lparr>iv_cache := fold (\<lambda>k c. cache_insert c k) [?k]
                    (cache_insert (iv_cache ?g0) (take (enc_iv_len ?g0) (array ?c0)))\<rparr> = ?g2"
    unfolding iv0 by (simp add: cache_insert_def)
  have p2: "ss_decrypt stub_lib
        (?g0\<lparr>iv_cache := fold (\<lambda>k c. cache_insert c k) [?k]
                    (cache_insert (iv_cache ?g0) (take (enc_iv_len ?g0) (array ?c0)))\<rparr>)
        ?c2 (Some ?x) 10
      = Returns (- 1, bfree ?c2, Some (?x\<lparr>evp := ?e, counter := 0, init := True\<rparr>),
          ?g0\<lparr>iv_cache := fold (\<lambda>k c. cache_insert c k) [?k]
                    (cache_insert (iv_cache ?g0) (take (enc_iv_len ?g0) (array ?c0)))\<rparr>)"
    using T0 hk by blast
  show ?thesis
    apply (intro conjI)
      apply (rule exI)
      apply (intro conjI)
        apply (rule p1)
       apply (rule f1)
      apply (rule f2)
     apply (rule p0 [unfolded i0])
    apply (rule exI)
    apply (rule p2 [unfolded i2])
    done
qed

end
